theory Spec2Isabelle
  imports Complex_Main "HOL-Library.Sublist" "HOL-Library.AList"
begin

section \<open>Python values used by the pipeline\<close>

text \<open>
  Text is a \<^typ>\<open>string\<close>. Python's \<^verbatim>\<open>needle in haystack\<close> on strings is the
  contiguous-sublist test \<^const>\<open>sublist\<close>, \<^verbatim>\<open>s.startswith(p)\<close> is \<^const>\<open>prefix\<close>.
  \<^verbatim>\<open>str.lower\<close> is modelled on the ASCII letters; every other character is
  left as it is.
\<close>

datatype py_error =
    ValueError
  | KeyError
  | RuntimeError
  | FileNotFoundError
  | IsADirectoryError
  | RequestException
  | AttributeError
  | IndexError
  | UnicodeDecodeError

definition lower_char :: "char \<Rightarrow> char" where
  "lower_char c =
     (let n = (of_char c :: nat)
      in if 65 \<le> n \<and> n \<le> 90 then char_of (n + 32) else c)"

definition lower :: "string \<Rightarrow> string" where
  "lower s = map lower_char s"

text \<open>\<^verbatim>\<open>any(t in text for t in terms)\<close>\<close>

definition any_in :: "string list \<Rightarrow> string \<Rightarrow> bool" where
  "any_in terms text = list_ex (\<lambda>t. sublist t text) terms"

text \<open>\<^verbatim>\<open>list.index\<close>: the position of the first equal element, ValueError when there is none.\<close>

fun list_index :: "'a list \<Rightarrow> 'a \<Rightarrow> py_error + nat" where
  "list_index [] x = Inl ValueError"
| "list_index (y # ys) x =
     (if y = x then Inr 0
      else (case list_index ys x of Inl e \<Rightarrow> Inl e | Inr i \<Rightarrow> Inr (Suc i)))"

text \<open>
  A JSON value of the manifest: the program stores strings, and under \<^verbatim>\<open>files\<close> a
  dictionary from artifact kind to path. A Python dictionary keeps insertion order, so it is
  an association list; \<^verbatim>\<open>d[k] = v\<close> is \<^const>\<open>AList.update\<close> (an existing key
  keeps its place, a new key goes to the end) and \<^verbatim>\<open>d.get(k, dflt)\<close> is \<open>dict_get\<close>.
\<close>

datatype jval = JStr string | JDict "(string \<times> string) list"

type_synonym episode = "(string \<times> jval) list"

definition dict_get :: "('k \<times> 'v) list \<Rightarrow> 'k \<Rightarrow> 'v \<Rightarrow> 'v" where
  "dict_get d k dflt = (case map_of d k of None \<Rightarrow> dflt | Some v \<Rightarrow> v)"

text \<open>\<^verbatim>\<open>d.update(kwargs)\<close>: the keyword arguments are assigned one after the other.\<close>

definition dict_update :: "('k \<times> 'v) list \<Rightarrow> ('k \<times> 'v) list \<Rightarrow> ('k \<times> 'v) list" where
  "dict_update d kwargs = fold (\<lambda>(k, v) acc. AList.update k v acc) kwargs d"

section \<open>utils/paths.py\<close>

text \<open>
  \<^verbatim>\<open>SAFE_CHARS = re.compile(r"[^A-Za-z0-9._-]+")\<close>;
  \<^verbatim>\<open>safe_name(name) = SAFE_CHARS.sub("_", name).strip("_")\<close>: every maximal run of
  characters outside the safe set becomes one underscore, then the underscores at both ends
  are stripped. Paths are written relative to \<^verbatim>\<open>BASE_DATA_DIR\<close>.
\<close>

definition is_safe_char :: "char \<Rightarrow> bool" where
  "is_safe_char c =
     (let n = (of_char c :: nat)
      in (65 \<le> n \<and> n \<le> 90) \<or> (97 \<le> n \<and> n \<le> 122) \<or> (48 \<le> n \<and> n \<le> 57)
         \<or> c = CHR ''.'' \<or> c = CHR ''_'' \<or> c = CHR ''-'')"

function sub_unsafe :: "string \<Rightarrow> string" where
  "sub_unsafe [] = []"
| "sub_unsafe (c # cs) =
     (if is_safe_char c then c # sub_unsafe cs
      else CHR ''_'' # sub_unsafe (dropWhile (\<lambda>d. \<not> is_safe_char d) cs))"
  by pat_completeness auto
termination
  by (relation "measure length") (auto simp: less_Suc_eq_le length_dropWhile_le)

definition strip_underscores :: "string \<Rightarrow> string" where
  "strip_underscores s =
     rev (dropWhile (\<lambda>c. c = CHR ''_'') (rev (dropWhile (\<lambda>c. c = CHR ''_'') s)))"

definition safe_name :: "string \<Rightarrow> string" where
  "safe_name name = strip_underscores (sub_unsafe name)"

definition podcast_dir :: "string \<Rightarrow> string" where
  "podcast_dir name = safe_name name"

text \<open>\<^verbatim>\<open>stem = safe_name((guid or title) or "episode")[:120]\<close>\<close>

definition episode_stem :: "string \<Rightarrow> string \<Rightarrow> string" where
  "episode_stem guid title =
     take 120 (safe_name (if guid \<noteq> [] then guid else if title \<noteq> [] then title else ''episode''))"

record episode_paths =
  audio :: string
  audio_part :: string
  raw :: string
  clean :: string
  meta :: string

definition episode_paths :: "string \<Rightarrow> string \<Rightarrow> string \<Rightarrow> episode_paths" where
  "episode_paths podcast guid title =
     (let base = podcast_dir podcast @ ''/episodes/''; stem = episode_stem guid title
      in \<lparr> audio = base @ stem @ ''.mp3'',
           audio_part = base @ stem @ ''.mp3.part'',
           raw = base @ stem @ ''_raw.txt'',
           clean = base @ stem @ ''_clean.txt'',
           meta = base @ stem @ ''.meta.json'' \<rparr>)"

record podcast_artifacts =
  pdf :: string
  persona :: string
  faiss :: string
  faiss_meta :: string
  manifest :: string
  lock :: string

definition podcast_artifacts :: "string \<Rightarrow> podcast_artifacts" where
  "podcast_artifacts podcast =
     (let base = podcast_dir podcast @ ''/''
      in \<lparr> pdf = base @ safe_name podcast @ ''.pdf'',
           persona = base @ ''persona.json'',
           faiss = base @ ''embeddings.faiss'',
           faiss_meta = base @ ''embeddings_meta.json'',
           manifest = base @ ''manifest.json'',
           lock = base @ ''.processing.lock'' \<rparr>)"

section \<open>utils/state.py: the persisted manifest\<close>

text \<open>
  The manifest of a podcast is the JSON document
  \<^verbatim>\<open>{"podcast_name": ..., "episodes": {guid: record}}\<close> at the manifest path. The
  world holds the parsed manifest of every manifest path, the bytes of every other file by
  path (texts, audio, persona documents, vector indexes), the metadata list of every index,
  and the number of requests made so far to the remote collaborators. A manifest file and a
  metadata file are taken to hold what the program wrote there, so they parse; the bytes of
  any other file are arbitrary.
\<close>

record manifest_doc =
  podcast_name :: string
  episodes :: "(string \<times> episode) list"

record meta_entry =
  meta_guid :: string
  meta_title :: jval

record world =
  manifests :: "string \<rightharpoonup> manifest_doc"
  files :: "string \<rightharpoonup> string"
  metas :: "string \<rightharpoonup> meta_entry list"
  requests :: nat

definition load_manifest :: "world \<Rightarrow> string \<Rightarrow> manifest_doc" where
  "load_manifest w podcast =
     (case manifests w (manifest (podcast_artifacts podcast)) of
        Some mf \<Rightarrow> mf
      | None \<Rightarrow> \<lparr> podcast_name = podcast, episodes = [] \<rparr>)"

definition save_manifest :: "world \<Rightarrow> string \<Rightarrow> manifest_doc \<Rightarrow> world" where
  "save_manifest w podcast data =
     w\<lparr> manifests := (manifests w)(manifest (podcast_artifacts podcast) \<mapsto> data) \<rparr>"

definition update_episode_state :: "world \<Rightarrow> string \<Rightarrow> string \<Rightarrow> episode \<Rightarrow> world" where
  "update_episode_state w podcast guid kwargs =
     (let mf = load_manifest w podcast;
          epi = dict_get (episodes mf) guid [];
          epi' = dict_update epi kwargs;
          mf' = mf\<lparr> episodes := AList.update guid epi' (episodes mf) \<rparr>
      in save_manifest w podcast mf')"

definition order :: "string list" where
  "order = [''downloaded'', ''transcribed'', ''cleaned'', ''embedded'', ''pdf'']"

text \<open>
  The body of the \<^verbatim>\<open>try\<close> block of \<^verbatim>\<open>episode_done_at_least\<close>:
  \<^verbatim>\<open>order.index(epi.get("status", "")) >= order.index(stage)\<close>, the left index first.
\<close>

definition status_reaches :: "episode \<Rightarrow> string \<Rightarrow> py_error + bool" where
  "status_reaches epi stage =
     (case list_index (map JStr order) (dict_get epi ''status'' (JStr '''')) of
        Inl e \<Rightarrow> Inl e
      | Inr i \<Rightarrow> (case list_index order stage of Inl e \<Rightarrow> Inl e | Inr j \<Rightarrow> Inr (j \<le> i)))"

definition episode_done_at_least :: "world \<Rightarrow> string \<Rightarrow> string \<Rightarrow> string \<Rightarrow> py_error + bool" where
  "episode_done_at_least w podcast guid stage =
     (let mf = load_manifest w podcast
      in case map_of (episodes mf) guid of
           None \<Rightarrow> Inr False
         | Some epi \<Rightarrow>
             if epi = [] then Inr False
             else (case status_reaches epi stage of
                     Inl ValueError \<Rightarrow> Inr False
                   | Inl e \<Rightarrow> Inl e
                   | Inr b \<Rightarrow> Inr b))"

text \<open>
  The fixed order of the stages, written out: the rank of a stage name, and no rank for any
  other string.
\<close>

definition stage_rank :: "string \<Rightarrow> nat option" where
  "stage_rank s =
     (if s = ''downloaded'' then Some 0
      else if s = ''transcribed'' then Some 1
      else if s = ''cleaned'' then Some 2
      else if s = ''embedded'' then Some 3
      else if s = ''pdf'' then Some 4
      else None)"

text \<open>The status string persisted for an episode, if the record has one.\<close>

definition persisted_status :: "world \<Rightarrow> string \<Rightarrow> string \<Rightarrow> string option" where
  "persisted_status w podcast guid =
     (case map_of (episodes (load_manifest w podcast)) guid of
        None \<Rightarrow> None
      | Some epi \<Rightarrow> (case map_of epi ''status'' of Some (JStr st) \<Rightarrow> Some st | _ \<Rightarrow> None))"

text \<open>\<open>at_least st s\<close>: both strings are stage names and \<open>st\<close> is not before \<open>s\<close>.\<close>

definition at_least :: "string \<Rightarrow> string \<Rightarrow> bool" where
  "at_least st s =
     (case (stage_rank st, stage_rank s) of (Some i, Some j) \<Rightarrow> j \<le> i | _ \<Rightarrow> False)"

section \<open>The file system and the remote collaborators\<close>

text \<open>
  \<^verbatim>\<open>Path("")\<close> is the current directory: it exists, and reading it as text raises
  IsADirectoryError. Every other path exists exactly when the world has a file there.
  Directories are created on demand by the source and are not tracked.
\<close>

definition path_exists :: "world \<Rightarrow> string \<Rightarrow> bool" where
  "path_exists w p = (p = [] \<or> files w p \<noteq> None)"

definition file_size :: "world \<Rightarrow> string \<Rightarrow> nat" where
  "file_size w p = (case files w p of None \<Rightarrow> 0 | Some c \<Rightarrow> length c)"

text \<open>\<^verbatim>\<open>open(path, "rb").read()\<close>: the bytes of the file, as they are.\<close>

definition read_bytes :: "world \<Rightarrow> string \<Rightarrow> py_error + string" where
  "read_bytes w p =
     (if p = [] then Inl IsADirectoryError
      else (case files w p of None \<Rightarrow> Inl FileNotFoundError | Some c \<Rightarrow> Inr c))"

text \<open>
  A file holds bytes, and \<^verbatim>\<open>path.read_text(encoding="utf-8")\<close> decodes them strictly:
  bytes that are not well-formed UTF-8 raise UnicodeDecodeError. \<open>utf8_valid\<close> is the
  well-formedness test of the decoder (no stray continuation byte, no truncated or overlong
  sequence, no surrogate, nothing above U+10FFFF). A text is kept as its UTF-8 encoding, so
  the decoded text of well-formed bytes is these bytes, and \<^verbatim>\<open>write_text\<close> stores a text
  as it is.
\<close>

definition byte_in :: "char \<Rightarrow> nat \<Rightarrow> nat \<Rightarrow> bool" where
  "byte_in c lo hi = (lo \<le> (of_char c :: nat) \<and> (of_char c :: nat) \<le> hi)"

fun utf8_valid :: "string \<Rightarrow> bool" where
  "utf8_valid [] = True"
| "utf8_valid [c] = byte_in c 0 127"
| "utf8_valid [c, c1] =
     (if byte_in c 0 127 then utf8_valid [c1]
      else byte_in c 194 223 \<and> byte_in c1 128 191)"
| "utf8_valid [c, c1, c2] =
     (if byte_in c 0 127 then utf8_valid [c1, c2]
      else if byte_in c 194 223 then byte_in c1 128 191 \<and> utf8_valid [c2]
      else if byte_in c 224 224 then byte_in c1 160 191 \<and> byte_in c2 128 191
      else if byte_in c 237 237 then byte_in c1 128 159 \<and> byte_in c2 128 191
      else byte_in c 225 239 \<and> byte_in c1 128 191 \<and> byte_in c2 128 191)"
| "utf8_valid (c # c1 # c2 # c3 # cs) =
     (if byte_in c 0 127 then utf8_valid (c1 # c2 # c3 # cs)
      else if byte_in c 194 223 then byte_in c1 128 191 \<and> utf8_valid (c2 # c3 # cs)
      else if byte_in c 224 224 then
        byte_in c1 160 191 \<and> byte_in c2 128 191 \<and> utf8_valid (c3 # cs)
      else if byte_in c 237 237 then
        byte_in c1 128 159 \<and> byte_in c2 128 191 \<and> utf8_valid (c3 # cs)
      else if byte_in c 225 239 then
        byte_in c1 128 191 \<and> byte_in c2 128 191 \<and> utf8_valid (c3 # cs)
      else if byte_in c 240 240 then
        byte_in c1 144 191 \<and> byte_in c2 128 191 \<and> byte_in c3 128 191 \<and> utf8_valid cs
      else if byte_in c 241 243 then
        byte_in c1 128 191 \<and> byte_in c2 128 191 \<and> byte_in c3 128 191 \<and> utf8_valid cs
      else byte_in c 244 244 \<and>
        byte_in c1 128 143 \<and> byte_in c2 128 191 \<and> byte_in c3 128 191 \<and> utf8_valid cs)"

definition read_text :: "world \<Rightarrow> string \<Rightarrow> py_error + string" where
  "read_text w p =
     (case read_bytes w p of
        Inl e \<Rightarrow> Inl e
      | Inr bytes \<Rightarrow> if utf8_valid bytes then Inr bytes else Inl UnicodeDecodeError)"

definition write_file :: "world \<Rightarrow> string \<Rightarrow> string \<Rightarrow> world" where
  "write_file w p c = w\<lparr> files := (files w)(p \<mapsto> c) \<rparr>"

definition unlink :: "world \<Rightarrow> string \<Rightarrow> world" where
  "unlink w p = w\<lparr> files := (files w)(p := None) \<rparr>"

definition tick :: "world \<Rightarrow> world" where
  "tick w = w\<lparr> requests := Suc (requests w) \<rparr>"

text \<open>
  What the remote side answers is not part of the program. Each collaborator is a function
  of the number of requests made before (so that a retry may see another answer) and of what
  is sent:
  \<^item> \<open>http_get\<close>: \<^verbatim>\<open>session.get(audio_url, headers, stream=True)\<close> with the start of
    the \<^verbatim>\<open>Range\<close> header, if any; the answer is a connection failure or a response with
    its status code, its \<^verbatim>\<open>Content-Length\<close> header, the bytes that
    \<^verbatim>\<open>iter_content\<close> delivers, and whether the stream breaks after them;
  \<^item> \<open>stt_upload\<close>: \<^verbatim>\<open>_upload_file\<close>, the upload URL or a failure of every method;
  \<^item> \<open>stt_submit\<close>: the POST that creates the transcription job, giving its id;
  \<^item> \<open>stt_poll\<close>: the GET of the job, a transport failure or the job's status and text;
  \<^item> \<open>scrub\<close>: the substitutions of the \<^verbatim>\<open>re\<close> module in \<^verbatim>\<open>clean_transcript\<close>
    (the advertisement and intro/outro patterns, the whitespace collapse) followed by
    \<^verbatim>\<open>strip\<close>;
  \<^item> \<open>encode_index\<close>: the bytes of the FAISS index built from the encoded texts;
  \<^item> \<open>render_pdf\<close>: the bytes of the document built from the story of
    \<^verbatim>\<open>generate_podcast_pdf\<close>, or a failure.
\<close>

text \<open>The paragraphs of the story, by the values spliced into their markup.\<close>

datatype story_item =
    PodcastTitle string
  | EpisodeHeading jval
  | Published jval
  | HostGuest jval jval
  | TranscriptHeading
  | TranscriptText string

datatype content_length = NoLength | Length nat | BadLength

record http_response =
  status_code :: nat
  content_length :: content_length
  body :: string
  broken :: bool

datatype http_outcome = ConnectionFailed | Response http_response

datatype poll_outcome = PollFailed | PollStatus string string

record env =
  http_get :: "nat \<Rightarrow> string \<Rightarrow> nat option \<Rightarrow> http_outcome"
  stt_upload :: "nat \<Rightarrow> string \<Rightarrow> string option"
  stt_submit :: "nat \<Rightarrow> string \<Rightarrow> string option"
  stt_poll :: "nat \<Rightarrow> jval \<Rightarrow> poll_outcome"
  scrub :: "string \<Rightarrow> string"
  encode_index :: "string list \<Rightarrow> string"
  render_pdf :: "story_item list \<Rightarrow> string option"

section \<open>services/download.py\<close>

definition MAX_RETRIES :: nat where
  "MAX_RETRIES = 3"

definition MIN_FILE_SIZE :: nat where
  "MIN_FILE_SIZE = 1024"

text \<open>
  One pass through the body of the \<^verbatim>\<open>for attempt in range(MAX_RETRIES)\<close> loop, up to
  the \<^verbatim>\<open>break\<close> (\<open>Completed\<close>), the \<^verbatim>\<open>continue\<close> of a server that does not
  resume (\<open>Restart\<close>), or an exception of the classes the loop catches (\<open>Raised\<close>:
  a failed request, an error status, a malformed \<^verbatim>\<open>Content-Length\<close>, a broken stream,
  a partial file below the minimum size). The pass returns the new \<^verbatim>\<open>resume_from\<close>
  and the start of the \<^verbatim>\<open>Range\<close> header.
\<close>

datatype attempt_result = Completed | Restart | Raised

definition download_attempt ::
  "env \<Rightarrow> string \<Rightarrow> string \<Rightarrow> nat \<Rightarrow> nat option \<Rightarrow> world
     \<Rightarrow> attempt_result \<times> nat \<times> nat option \<times> world" where
  "download_attempt env audio_url part resume_from range_start w =
     (let w1 = tick w
      in case http_get env (requests w) audio_url range_start of
           ConnectionFailed \<Rightarrow> (Raised, resume_from, range_start, w1)
         | Response r \<Rightarrow>
             if 400 \<le> status_code r \<and> status_code r < 600
             then (Raised, resume_from, range_start, w1)
             else if 0 < resume_from \<and> status_code r \<noteq> 206 \<and> status_code r \<noteq> 200
             then (Restart, 0, None, w1)
             else if content_length r = BadLength
             then (Raised, resume_from, range_start, w1)
             else
               let append = (0 < resume_from \<and> status_code r = 206);
                   fresh = (\<not> append \<and> path_exists w1 part);
                   w2 = (if fresh then unlink w1 part else w1);
                   resume_from' = (if fresh then 0 else resume_from);
                   old = (if append then (case files w2 part of None \<Rightarrow> [] | Some c \<Rightarrow> c) else []);
                   w3 = write_file w2 part (old @ body r)
               in if broken r then (Raised, resume_from', range_start, w3)
                  else if file_size w3 part < MIN_FILE_SIZE then (Raised, resume_from', range_start, w3)
                  else (Completed, resume_from', range_start, w3))"

text \<open>
  The retry loop with \<open>n\<close> attempts left. After a caught exception the last attempt raises
  RuntimeError; an earlier one re-reads the size of the partial file when a
  \<^verbatim>\<open>Range\<close> header is set. A loop that ends without \<^verbatim>\<open>break\<close> falls through to
  the rename, as in the source.
\<close>

fun download_loop ::
  "env \<Rightarrow> string \<Rightarrow> string \<Rightarrow> nat \<Rightarrow> nat \<Rightarrow> nat option \<Rightarrow> world \<Rightarrow> (py_error + unit) \<times> world" where
  "download_loop env audio_url part 0 resume_from range_start w = (Inr (), w)"
| "download_loop env audio_url part (Suc n) resume_from range_start w =
     (case download_attempt env audio_url part resume_from range_start w of
        (Completed, rf, rg, w') \<Rightarrow> (Inr (), w')
      | (Restart, rf, rg, w') \<Rightarrow> download_loop env audio_url part n rf rg w'
      | (Raised, rf, rg, w') \<Rightarrow>
          if n = 0 then (Inl RuntimeError, w')
          else if rg \<noteq> None \<and> path_exists w' part
          then download_loop env audio_url part n (file_size w' part) (Some (file_size w' part)) w'
          else download_loop env audio_url part n rf rg w')"

text \<open>
  \<^verbatim>\<open>_safe_file_rename\<close>: the destination is removed if it exists, then the source
  replaces it; a missing source raises FileNotFoundError after the destination is gone.
  (The file system of the model never refuses a rename, so the PermissionError retries of
  the source do not occur.)
\<close>

definition safe_file_rename :: "world \<Rightarrow> string \<Rightarrow> string \<Rightarrow> (py_error + unit) \<times> world" where
  "safe_file_rename w source destination =
     (let w1 = (if path_exists w destination then unlink w destination else w)
      in case files w1 source of
           None \<Rightarrow> (Inl FileNotFoundError, w1)
         | Some c \<Rightarrow> (Inr (), write_file (unlink w1 source) destination c))"

definition cleanup_failed_download :: "world \<Rightarrow> string \<Rightarrow> string \<Rightarrow> world" where
  "cleanup_failed_download w part_file audio_file =
     (let w1 = (if path_exists w part_file then unlink w part_file else w)
      in if path_exists w1 audio_file \<and> file_size w1 audio_file < MIN_FILE_SIZE
         then unlink w1 audio_file else w1)"

text \<open>
  The body of the \<^verbatim>\<open>try\<close> block of \<^verbatim>\<open>download_episode\<close>.
  (\<^verbatim>\<open>_check_disk_space\<close> catches its own exception and changes nothing.)
\<close>

definition download_body ::
  "env \<Rightarrow> world \<Rightarrow> string \<Rightarrow> string \<Rightarrow> string \<Rightarrow> string \<Rightarrow> (py_error + string) \<times> world" where
  "download_body env w podcast guid title audio_url =
     (let paths = episode_paths podcast guid title;
          part = audio_part paths;
          resume_from = (if path_exists w part then file_size w part else 0);
          range_start = (if path_exists w part \<and> 0 < resume_from then Some resume_from else None)
      in case download_loop env audio_url part MAX_RETRIES resume_from range_start w of
           (Inl e, w1) \<Rightarrow> (Inl e, w1)
         | (Inr u, w1) \<Rightarrow>
             (case safe_file_rename w1 part (audio paths) of
                (Inl e, w2) \<Rightarrow> (Inl e, w2)
              | (Inr u', w2) \<Rightarrow>
                  if \<not> path_exists w2 (audio paths) \<or> file_size w2 (audio paths) < MIN_FILE_SIZE
                  then (Inl RuntimeError, w2)
                  else (Inr (audio paths),
                        update_episode_state w2 podcast guid
                          [(''title'', JStr title), (''audio_url'', JStr audio_url),
                           (''status'', JStr ''downloaded''),
                           (''files'', JDict [(''audio'', audio paths)])])))"

definition download_episode ::
  "env \<Rightarrow> world \<Rightarrow> string \<Rightarrow> string \<Rightarrow> string \<Rightarrow> string \<Rightarrow> (py_error + string) \<times> world" where
  "download_episode env w podcast guid title audio_url =
     (let paths = episode_paths podcast guid title
      in case episode_done_at_least w podcast guid ''downloaded'' of
           Inl e \<Rightarrow> (Inl e, w)
         | Inr done \<Rightarrow>
             if done \<and> path_exists w (audio paths) \<and> MIN_FILE_SIZE < file_size w (audio paths)
             then (Inr (audio paths), w)
             else if audio_url = [] \<or>
                     \<not> (prefix ''http://'' audio_url \<or> prefix ''https://'' audio_url)
             then (Inl ValueError, w)
             else (case download_body env w podcast guid title audio_url of
                     (Inl e, w1) \<Rightarrow> (Inl e, cleanup_failed_download w1 (audio_part paths) (audio paths))
                   | (Inr p, w1) \<Rightarrow> (Inr p, w1)))"

section \<open>services/transcribe.py\<close>

text \<open>Python truthiness of \<^verbatim>\<open>epi.get("transcript_id")\<close>.\<close>

definition truthy :: "jval option \<Rightarrow> bool" where
  "truthy v = (case v of None \<Rightarrow> False | Some (JStr s) \<Rightarrow> s \<noteq> [] | Some (JDict d) \<Rightarrow> d \<noteq> [])"

text \<open>
  The polling loop \<^verbatim>\<open>while True\<close>, with the value of \<^verbatim>\<open>poll_count\<close> at the top of
  the pass. A pass returns, raises, or goes round again with \<^verbatim>\<open>poll_count + 1\<close>, which
  is at most 360 then, so the loop ends.
\<close>

function poll_loop ::
  "env \<Rightarrow> jval \<Rightarrow> string \<Rightarrow> string \<Rightarrow> string \<Rightarrow> nat \<Rightarrow> world \<Rightarrow> (py_error + string) \<times> world" where
  "poll_loop env tid podcast guid raw_path poll_count w =
     (let w1 = tick w
      in case stt_poll env (requests w) tid of
           PollFailed \<Rightarrow>
             if 10 < poll_count then (Inl RuntimeError, w1)
             else poll_loop env tid podcast guid raw_path (Suc poll_count) w1
         | PollStatus status text \<Rightarrow>
             if status = ''completed'' then
               (if text = [] then (Inl RuntimeError, w1)
                else (Inr raw_path,
                      update_episode_state (write_file w1 raw_path text) podcast guid
                        [(''status'', JStr ''transcribed''),
                         (''files'', JDict [(''raw'', raw_path)])]))
             else if status = ''error'' then (Inl RuntimeError, w1)
             else if 360 < Suc poll_count then (Inl RuntimeError, w1)
             else poll_loop env tid podcast guid raw_path (Suc poll_count) w1)"
  by pat_completeness auto
termination
  by (relation "measure (\<lambda>(env, tid, podcast, guid, raw_path, poll_count, w). 361 - poll_count)")
    auto

definition transcribe_episode ::
  "env \<Rightarrow> world \<Rightarrow> string \<Rightarrow> string \<Rightarrow> string \<Rightarrow> (py_error + string) \<times> world" where
  "transcribe_episode env w podcast guid title =
     (let paths = episode_paths podcast guid title
      in case episode_done_at_least w podcast guid ''transcribed'' of
           Inl e \<Rightarrow> (Inl e, w)
         | Inr True \<Rightarrow> (Inr (raw paths), w)
         | Inr False \<Rightarrow>
             if path_exists w (raw paths) \<and> 0 < file_size w (raw paths)
             then (Inr (raw paths),
                   update_episode_state w podcast guid
                     [(''status'', JStr ''transcribed''),
                      (''files'', JDict [(''raw'', raw paths)])])
             else
               let epi = dict_get (episodes (load_manifest w podcast)) guid [];
                   tid = map_of epi ''transcript_id''
               in case (if truthy tid then tid else None) of
                    Some t \<Rightarrow> poll_loop env t podcast guid (raw paths) 0 w
                  | None \<Rightarrow>
                      if \<not> path_exists w (audio paths) then (Inl FileNotFoundError, w)
                      else
                        (case read_bytes w (audio paths) of
                           Inl e \<Rightarrow> (Inl e, w)
                         | Inr audio_bytes \<Rightarrow>
                             (case stt_upload env (requests w) audio_bytes of
                                None \<Rightarrow> (Inl RuntimeError, tick w)
                              | Some upload_url \<Rightarrow>
                                  (case stt_submit env (Suc (requests w)) upload_url of
                                     None \<Rightarrow> (Inl RequestException, tick (tick w))
                                   | Some job_id \<Rightarrow>
                                       poll_loop env (JStr job_id) podcast guid (raw paths) 0
                                         (update_episode_state (tick (tick w)) podcast guid
                                            [(''transcript_id'', JStr job_id)])))))"

section \<open>services/clean.py\<close>

definition clean_transcript ::
  "env \<Rightarrow> world \<Rightarrow> string \<Rightarrow> string \<Rightarrow> string \<Rightarrow> (py_error + string) \<times> world" where
  "clean_transcript env w podcast guid title =
     (let paths = episode_paths podcast guid title
      in case episode_done_at_least w podcast guid ''cleaned'' of
           Inl e \<Rightarrow> (Inl e, w)
         | Inr True \<Rightarrow> (Inr (clean paths), w)
         | Inr False \<Rightarrow>
             (case (if path_exists w (raw paths) then read_text w (raw paths) else Inr []) of
                Inl e \<Rightarrow> (Inl e, w)
              | Inr txt \<Rightarrow>
                  (Inr (clean paths),
                   update_episode_state (write_file w (clean paths) (scrub env txt)) podcast guid
                     [(''status'', JStr ''cleaned''),
                      (''files'', JDict [(''clean'', clean paths)])])))"

section \<open>services/embeddings.py: building the index\<close>

text \<open>\<^verbatim>\<open>epi.get("files", {}).get("clean", "")\<close>; a string has no \<^verbatim>\<open>get\<close>.\<close>

definition files_clean :: "episode \<Rightarrow> py_error + string" where
  "files_clean epi =
     (case dict_get epi ''files'' (JDict []) of
        JDict d \<Rightarrow> Inr (dict_get d ''clean'' [])
      | JStr s \<Rightarrow> Inl AttributeError)"

text \<open>
  The loop of \<^verbatim>\<open>build_embeddings\<close> that gathers the cleaned texts and the metadata
  entries, in the order of the manifest.
\<close>

fun collect_clean ::
  "world \<Rightarrow> (string \<times> episode) list \<Rightarrow> py_error + (string list \<times> meta_entry list)" where
  "collect_clean w [] = Inr ([], [])"
| "collect_clean w ((guid, epi) # rest) =
     (case files_clean epi of
        Inl e \<Rightarrow> Inl e
      | Inr clean_path \<Rightarrow>
          if path_exists w clean_path then
            (case read_text w clean_path of
               Inl e \<Rightarrow> Inl e
             | Inr txt \<Rightarrow>
                 (case collect_clean w rest of
                    Inl e \<Rightarrow> Inl e
                  | Inr (texts, ms) \<Rightarrow>
                      Inr (txt # texts,
                           \<lparr> meta_guid = guid, meta_title = dict_get epi ''title'' (JStr guid) \<rparr> # ms)))
          else collect_clean w rest)"

text \<open>\<^verbatim>\<open>for guid in mf["episodes"]: update_episode_state(podcast, guid, status=st)\<close>\<close>

definition mark_all :: "world \<Rightarrow> string \<Rightarrow> string list \<Rightarrow> string \<Rightarrow> world" where
  "mark_all w podcast guids st =
     fold (\<lambda>guid w'. update_episode_state w' podcast guid [(''status'', JStr st)]) guids w"

text \<open>\<^verbatim>\<open>all([episode_done_at_least(podcast, guid, stage) for guid in ...])\<close>\<close>

fun all_done :: "world \<Rightarrow> string \<Rightarrow> string list \<Rightarrow> string \<Rightarrow> py_error + bool" where
  "all_done w podcast [] stage = Inr True"
| "all_done w podcast (guid # guids) stage =
     (case episode_done_at_least w podcast guid stage of
        Inl e \<Rightarrow> Inl e
      | Inr b \<Rightarrow> (case all_done w podcast guids stage of Inl e \<Rightarrow> Inl e | Inr bs \<Rightarrow> Inr (b \<and> bs)))"

text \<open>
  \<^verbatim>\<open>build_embeddings\<close> returns the path of the index, or \<^verbatim>\<open>None\<close> when no cleaned
  text was found. (Loading the embedding model and encoding are taken to succeed.)
\<close>

definition build_embeddings :: "env \<Rightarrow> world \<Rightarrow> string \<Rightarrow> (py_error + string option) \<times> world" where
  "build_embeddings env w podcast =
     (let art = podcast_artifacts podcast;
          mf = load_manifest w podcast
      in case all_done w podcast (map fst (episodes mf)) ''embedded'' of
           Inl e \<Rightarrow> (Inl e, w)
         | Inr True \<Rightarrow> (Inr (Some (faiss art)), w)
         | Inr False \<Rightarrow>
             (case collect_clean w (episodes mf) of
                Inl e \<Rightarrow> (Inl e, w)
              | Inr (texts, ms) \<Rightarrow>
                  if texts = [] then (Inr None, w)
                  else
                    let w1 = write_file w (faiss art) (encode_index env texts);
                        w2 = w1\<lparr> metas := (metas w1)(faiss_meta art \<mapsto> ms) \<rparr>
                    in (Inr (Some (faiss art)), mark_all w2 podcast (map fst (episodes mf)) ''embedded'')))"

section \<open>services/pdfgen.py\<close>

definition jval_truthy :: "jval \<Rightarrow> bool" where
  "jval_truthy v = (case v of JStr s \<Rightarrow> s \<noteq> [] | JDict d \<Rightarrow> d \<noteq> [])"

fun episode_story :: "world \<Rightarrow> (string \<times> episode) list \<Rightarrow> py_error + story_item list" where
  "episode_story w [] = Inr []"
| "episode_story w ((guid, epi) # rest) =
     (let title = dict_get epi ''title'' (JStr guid);
          pub = dict_get epi ''publish_date'' (JStr []);
          host = dict_get epi ''host'' (JStr []);
          guest = dict_get epi ''guest'' (JStr [])
      in case files_clean epi of
           Inl e \<Rightarrow> Inl e
         | Inr clean_path \<Rightarrow>
             (case (if path_exists w clean_path then read_text w clean_path else Inr []) of
                Inl e \<Rightarrow> Inl e
              | Inr txt \<Rightarrow>
                  (case episode_story w rest of
                     Inl e \<Rightarrow> Inl e
                   | Inr others \<Rightarrow>
                       Inr ([EpisodeHeading title]
                            @ (if jval_truthy pub then [Published pub] else [])
                            @ (if jval_truthy host \<or> jval_truthy guest then [HostGuest host guest] else [])
                            @ [TranscriptHeading, TranscriptText txt] @ others))))"

definition generate_podcast_pdf :: "env \<Rightarrow> world \<Rightarrow> string \<Rightarrow> (py_error + string) \<times> world" where
  "generate_podcast_pdf env w podcast =
     (let art = podcast_artifacts podcast;
          mf = load_manifest w podcast
      in case episode_story w (episodes mf) of
           Inl e \<Rightarrow> (Inl e, w)
         | Inr story \<Rightarrow>
             (case render_pdf env (PodcastTitle podcast # story) of
                None \<Rightarrow> (Inl RuntimeError, w)
              | Some bytes \<Rightarrow> (Inr (pdf art), write_file w (pdf art) bytes)))"

section \<open>app.py: the pipeline of one podcast\<close>

text \<open>
  The three per-episode stages inside the inner \<^verbatim>\<open>try\<close>: an exception of any stage
  ends the chain for this episode, and the loop goes on with the world as it is then.
\<close>

definition episode_chain :: "env \<Rightarrow> world \<Rightarrow> string \<Rightarrow> string \<Rightarrow> string \<Rightarrow> string \<Rightarrow> world" where
  "episode_chain env w podcast guid title url =
     (case download_episode env w podcast guid title url of
        (Inl e, w1) \<Rightarrow> w1
      | (Inr p, w1) \<Rightarrow>
          (case transcribe_episode env w1 podcast guid title of
             (Inl e, w2) \<Rightarrow> w2
           | (Inr p', w2) \<Rightarrow> snd (clean_transcript env w2 podcast guid title)))"

text \<open>
  The loop over the episodes of the manifest loaded at the start. \<^verbatim>\<open>ep["title"]\<close> and
  \<^verbatim>\<open>ep["audio_url"]\<close> are read outside the inner \<^verbatim>\<open>try\<close>: a record without one of
  them ends the run with KeyError. Everything else happens inside the inner \<^verbatim>\<open>try\<close>,
  whose handler goes on with the next episode:
  \<^item> a title that is not a string makes \<^verbatim>\<open>title[:50]\<close> raise at the first statement,
    before any stage is called, so the episode is skipped with the world as it is;
  \<^item> an \<^verbatim>\<open>audio_url\<close> that is not a string reaches \<^verbatim>\<open>download_episode\<close>, which
    returns the audio path when its skip test holds and otherwise raises at the test of
    the URL, as it does for the empty string (which exception it is does not matter to the
    handler); the model passes the empty string for it.
\<close>

fun episode_loop :: "env \<Rightarrow> world \<Rightarrow> string \<Rightarrow> (string \<times> episode) list \<Rightarrow> (py_error + unit) \<times> world" where
  "episode_loop env w podcast [] = (Inr (), w)"
| "episode_loop env w podcast ((guid, ep) # rest) =
     (case map_of ep ''title'' of
        None \<Rightarrow> (Inl KeyError, w)
      | Some t \<Rightarrow>
          (case map_of ep ''audio_url'' of
             None \<Rightarrow> (Inl KeyError, w)
           | Some u \<Rightarrow>
               (case t of
                  JDict d \<Rightarrow> episode_loop env w podcast rest
                | JStr title \<Rightarrow>
                    episode_loop env
                      (episode_chain env w podcast guid title (case u of JStr url \<Rightarrow> url | JDict d \<Rightarrow> []))
                      podcast rest)))"

text \<open>
  \<^verbatim>\<open>process_podcast\<close> answers \<^verbatim>\<open>{"success": True, "pdf": path}\<close> (\<open>Inr path\<close>) or
  \<^verbatim>\<open>{"success": False, "error": ...}\<close> (\<open>Inl\<close>).
\<close>

definition process_podcast :: "env \<Rightarrow> world \<Rightarrow> string \<Rightarrow> (py_error + string) \<times> world" where
  "process_podcast env w podcast =
     (case episode_loop env w podcast (episodes (load_manifest w podcast)) of
        (Inl e, w1) \<Rightarrow> (Inl e, w1)
      | (Inr u, w1) \<Rightarrow>
          (case build_embeddings env w1 podcast of
             (Inl e, w2) \<Rightarrow> (Inl e, w2)
           | (Inr idx, w2) \<Rightarrow>
               (case generate_podcast_pdf env w2 podcast of
                  (Inl e, w3) \<Rightarrow> (Inl e, w3)
                | (Inr pdf_path, w3) \<Rightarrow>
                    (Inr pdf_path,
                     mark_all w3 podcast (map fst (episodes (load_manifest w3 podcast))) ''pdf''))))"

section \<open>services/embeddings.py: searching the index\<close>

text \<open>
  The collaborators of the question-answering side:
  \<^item> \<open>faiss_search\<close>: \<^verbatim>\<open>index.search(qv, top_k)\<close> on the index read from its file, for the
    encoded query: the pairs \<^verbatim>\<open>zip(I[0], D[0])\<close> of ordinal and distance;
  \<^item> \<open>json_persona\<close>: \<^verbatim>\<open>json.loads\<close> on the text of a persona file;
  \<^item> \<open>llm\<close>: \<^verbatim>\<open>client.chat.completions.create\<close> with the prompt, the temperature and
    \<^verbatim>\<open>max_tokens\<close>, giving the content of the first choice (\<open>Inr\<close>) or the text of the
    exception that the call or an empty completion raises (\<open>Inl\<close>);
  \<^item> \<open>clean_text_output\<close>: the post-processing of generated text by the function of that
    name (literal replacements and substitutions of the \<^verbatim>\<open>re\<close> module);
  \<^item> \<open>now\<close>: \<^verbatim>\<open>datetime.now().isoformat()\<close>.
  A prompt is represented by the values spliced into its fixed template.
\<close>

record persona_doc =
  pd_podcast_name :: "string option"
  pd_host_style :: "string option"
  pd_common_themes :: "string list option"
  pd_guest_archetypes :: "string list option"
  pd_signature_questions :: "string list option"

datatype prompt =
    CreativePrompt persona_doc string string
  | DatabasePrompt persona_doc string "(jval \<times> string option) list" string
  | SimpleCreativePrompt string string string bool
  | SynthesisPrompt string "(string \<times> string) list" "(string \<times> jval \<times> string) list" string

record qa_env =
  faiss_search :: "string \<Rightarrow> string \<Rightarrow> nat \<Rightarrow> (int \<times> real) list"
  json_persona :: "string \<Rightarrow> persona_doc option"
  llm :: "nat \<Rightarrow> prompt \<Rightarrow> real \<Rightarrow> nat \<Rightarrow> string + string"
  clean_text_output :: "string \<Rightarrow> string"
  now :: "nat \<Rightarrow> string"

record hit =
  hit_title :: jval
  hit_guid :: string
  hit_score :: real

text \<open>
  The loop over \<^verbatim>\<open>zip(I[0], D[0])\<close>: an ordinal below \<^verbatim>\<open>len(metas)\<close> is looked up
  with Python's indexing, where a negative ordinal counts from the end and one below
  \<^verbatim>\<open>-len(metas)\<close> raises IndexError.
\<close>

fun search_results :: "meta_entry list \<Rightarrow> (int \<times> real) list \<Rightarrow> py_error + hit list" where
  "search_results ms [] = Inr []"
| "search_results ms ((idx, distance) # rest) =
     (if idx < int (length ms) then
        (if idx < - int (length ms) then Inl IndexError
         else
           (let m = ms ! nat (if idx < 0 then int (length ms) + idx else idx)
            in case search_results ms rest of
                 Inl e \<Rightarrow> Inl e
               | Inr hs \<Rightarrow>
                   Inr (\<lparr> hit_title = meta_title m, hit_guid = meta_guid m, hit_score = distance \<rparr> # hs)))
      else search_results ms rest)"

definition search :: "qa_env \<Rightarrow> world \<Rightarrow> string \<Rightarrow> string \<Rightarrow> nat \<Rightarrow> py_error + hit list" where
  "search qe w podcast query top_k =
     (let art = podcast_artifacts podcast
      in if \<not> path_exists w (faiss art) then Inr []
         else (case read_bytes w (faiss art) of
                 Inl e \<Rightarrow> Inl e
               | Inr index \<Rightarrow>
                   (case metas w (faiss_meta art) of
                      None \<Rightarrow> Inl FileNotFoundError
                    | Some ms \<Rightarrow> search_results ms (faiss_search qe index query top_k))))"

section \<open>services/debate.py\<close>

subsection \<open>Confidence\<close>

text \<open>
  A retrieved episode as \<^verbatim>\<open>get_relevant_episodes\<close> builds it. A search hit has no
  \<^verbatim>\<open>text\<close> key, so the text is always the default, the empty string. Scores are Python
  floats; the model computes with them as real numbers.
\<close>

record passage =
  ep_podcast :: string
  ep_title :: jval
  ep_guid :: string
  ep_text :: string
  ep_score :: real

definition hospitality_keywords :: "string list" where
  "hospitality_keywords =
     [''hotel'', ''guest'', ''service'', ''hospitality'', ''restaurant'',
      ''booking'', ''check-in'', ''amenities'', ''concierge'', ''staff'']"

definition calculate_confidence :: "passage list \<Rightarrow> string \<Rightarrow> real" where
  "calculate_confidence episode_list query =
     (if episode_list = [] then 0.0
      else
        let highest_score = Max (set (map ep_score episode_list));
            base_confidence = min highest_score 1.0;
            base_confidence1 =
              (if 2 \<le> length (filter (\<lambda>ep. 0.5 < ep_score ep) episode_list)
               then base_confidence + 0.1 else base_confidence);
            base_confidence2 =
              (if any_in hospitality_keywords (lower query)
               then base_confidence1 + 0.05 else base_confidence1)
        in min base_confidence2 1.0)"

text \<open>Decimal digits of a natural number, for \<^verbatim>\<open>{len(episodes)}\<close> in a format string.\<close>

fun show_nat :: "nat \<Rightarrow> string" where
  "show_nat n =
     (if n < 10 then [char_of (48 + n)] else show_nat (n div 10) @ [char_of (48 + n mod 10)])"

definition get_confidence_explanation :: "passage list \<Rightarrow> real \<Rightarrow> string" where
  "get_confidence_explanation episode_list conf =
     (if 0.8 \<le> conf
      then ''High confidence based on '' @ show_nat (length episode_list) @ '' highly relevant episodes''
      else if 0.5 \<le> conf
      then ''Medium confidence based on '' @ show_nat (length episode_list) @ '' moderately relevant episodes''
      else if 0.3 \<le> conf
      then ''Low confidence based on '' @ show_nat (length episode_list) @ '' episodes with limited relevance''
      else ''Very low confidence - drawing from general hospitality knowledge'')"

subsection \<open>The anti-fabrication test\<close>

record individual_response =
  ir_podcast :: string
  ir_response :: string
  ir_confidence :: real
  ir_source :: string

definition creative_indicators :: "string list" where
  "creative_indicators =
     [''while this hasn't'',
      ''this topic hasn't been'',
      ''hasn't come up in our recent episodes'',
      ''drawing from my broader'',
      ''from my hospitality experience'',
      ''this hasn't been a focus'']"

text \<open>An error response is skipped: its text contains \<^verbatim>\<open>trouble accessing\<close>.\<close>

definition is_error_response :: "individual_response \<Rightarrow> bool" where
  "is_error_response resp = sublist ''trouble accessing'' (lower (ir_response resp))"

text \<open>A response counts as creative (fallback mode) when its text has one of the indicators.\<close>

definition is_creative_response :: "individual_response \<Rightarrow> bool" where
  "is_creative_response resp = any_in creative_indicators (lower (ir_response resp))"

text \<open>
  One pass of the counting loop, on the pair
  \<^verbatim>\<open>(creative_responses, total_valid_responses)\<close>.
\<close>

definition count_response :: "individual_response \<Rightarrow> nat \<times> nat \<Rightarrow> nat \<times> nat" where
  "count_response resp counts =
     (case counts of
        (creative_responses, total_valid_responses) \<Rightarrow>
          if is_error_response resp then (creative_responses, total_valid_responses)
          else if is_creative_response resp
          then (Suc creative_responses, Suc total_valid_responses)
          else (creative_responses, Suc total_valid_responses))"

text \<open>
  \<^verbatim>\<open>creative_ratio = creative_responses / total_valid_responses\<close> is the quotient of
  two counts, compared with 0.8; the model divides in the real numbers.
\<close>

definition should_skip_synthesis :: "individual_response list \<Rightarrow> bool" where
  "should_skip_synthesis individual_responses =
     (if individual_responses = [] then True
      else
        (case fold count_response individual_responses (0, 0) of
           (creative_responses, total_valid_responses) \<Rightarrow>
             if total_valid_responses = 0 then True
             else 0.8 \<le> real creative_responses / real total_valid_responses))"

subsection \<open>Scenario detection and retrieval\<close>

definition detect_scenario_type :: "string \<Rightarrow> string" where
  "detect_scenario_type query =
     (let query_lower = lower query
      in if any_in [''trends'', ''identify'', ''research'', ''top 3'', ''shaping''] query_lower
         then ''research''
         else if any_in [''questions'', ''interview'', ''craft'', ''preparing''] query_lower
         then ''question_crafting''
         else if any_in [''advice'', ''advising'', ''recommend'', ''strategic''] query_lower
         then ''advisory''
         else if any_in [''episode outline'', ''outline'', ''content creation''] query_lower
         then ''episode_outline''
         else if any_in [''promo'', ''promotional'', ''script'', ''season launch''] query_lower
         then ''promotional_script''
         else if any_in [''social media'', ''instagram'', ''twitter'', ''linkedin''] query_lower
         then ''social_media''
         else if any_in [''newsletter'', ''weekly'', ''digest'', ''email''] query_lower
         then ''newsletter''
         else if any_in [''general advice'', ''launching'', ''brand'', ''pillars''] query_lower
         then ''general_advice''
         else ''conversational'')"

text \<open>The loop of \<^verbatim>\<open>get_relevant_episodes\<close> that pools the hits of every podcast.\<close>

fun pool_hits :: "qa_env \<Rightarrow> world \<Rightarrow> string list \<Rightarrow> string \<Rightarrow> nat \<Rightarrow> py_error + passage list" where
  "pool_hits qe w [] query limit = Inr []"
| "pool_hits qe w (podcast # rest) query limit =
     (case search qe w podcast query limit of
        Inl e \<Rightarrow> Inl e
      | Inr hits \<Rightarrow>
          (case pool_hits qe w rest query limit of
             Inl e \<Rightarrow> Inl e
           | Inr others \<Rightarrow>
               Inr (map (\<lambda>h. \<lparr> ep_podcast = podcast, ep_title = hit_title h, ep_guid = hit_guid h,
                                ep_text = [], ep_score = hit_score h \<rparr>) hits @ others)))"

text \<open>
  \<^verbatim>\<open>all_episodes.sort(key=lambda x: x['score'], reverse=True)\<close> is a stable sort by
  falling score; \<^verbatim>\<open>all_episodes[:limit]\<close> takes the first \<open>limit\<close> of them.
\<close>

definition get_relevant_episodes ::
  "qa_env \<Rightarrow> world \<Rightarrow> string list \<Rightarrow> string \<Rightarrow> nat \<Rightarrow> py_error + passage list" where
  "get_relevant_episodes qe w podcasts query limit =
     (case pool_hits qe w podcasts query limit of
        Inl e \<Rightarrow> Inl e
      | Inr all_episodes \<Rightarrow> Inr (take limit (sort_key (\<lambda>x. - ep_score x) all_episodes)))"

subsection \<open>The answer of one persona\<close>

definition empty_persona :: persona_doc where
  "empty_persona =
     \<lparr> pd_podcast_name = None, pd_host_style = None, pd_common_themes = None,
       pd_guest_archetypes = None, pd_signature_questions = None \<rparr>"

text \<open>
  \<^verbatim>\<open>persona = {}\<close>, replaced by the parsed persona file when the file exists; a file
  that does not parse raises ValueError (JSONDecodeError is a subclass).
\<close>

definition load_persona :: "qa_env \<Rightarrow> world \<Rightarrow> string \<Rightarrow> py_error + persona_doc" where
  "load_persona qe w persona_path =
     (if path_exists w persona_path then
        (case read_text w persona_path of
           Inl e \<Rightarrow> Inl e
         | Inr content \<Rightarrow>
             (case json_persona qe content of None \<Rightarrow> Inl ValueError | Some p \<Rightarrow> Inr p))
      else Inr empty_persona)"

definition backslash_n :: string where
  "backslash_n = [CHR 0x5C, CHR ''n'']"

definition newline :: string where
  "newline = [CHR 0x0A]"

text \<open>\<^verbatim>\<open>s.replace(old, new)\<close> for a non-empty \<open>old\<close>: left to right, without overlap.\<close>

function str_replace :: "string \<Rightarrow> string \<Rightarrow> string \<Rightarrow> string" where
  "str_replace old new [] = []"
| "str_replace old new (c # cs) =
     (if old \<noteq> [] \<and> prefix old (c # cs)
      then new @ str_replace old new (drop (length old) (c # cs))
      else c # str_replace old new cs)"
  by pat_completeness auto
termination
  by (relation "measure (\<lambda>(old, new, s). length s)") (auto simp: neq_Nil_conv)

text \<open>\<^verbatim>\<open>answer.replace('\\n\\n', '\n\n').replace('\\n', '\n')\<close>\<close>

definition unescape_newlines :: "string \<Rightarrow> string" where
  "unescape_newlines s =
     str_replace backslash_n newline
       (str_replace (backslash_n @ backslash_n) (newline @ newline) s)"

record answer_metadata =
  episodes_used :: "(jval \<times> real) list"
  processing_mode :: string
  timestamp :: string

record answer_result =
  answer :: string
  confidence :: real
  source :: string
  explanation :: string
  episodes_count :: nat
  highest_score :: real
  scenario_type :: string
  metadata :: "answer_metadata option"
  error :: "string option"

text \<open>
  The context of the database prompt: for each of the first three episodes its title, and
  its text cut to 600 characters with an ellipsis when the text is not empty.
\<close>

definition context_entry :: "passage \<Rightarrow> jval \<times> string option" where
  "context_entry ep =
     (ep_title ep,
      if ep_text ep \<noteq> []
      then Some (if 600 < length (ep_text ep) then take 600 (ep_text ep) @ ''...'' else ep_text ep)
      else None)"

definition single_persona_answer_with_confidence ::
  "qa_env \<Rightarrow> world \<Rightarrow> string \<Rightarrow> string \<Rightarrow> (py_error + answer_result) \<times> world" where
  "single_persona_answer_with_confidence qe w podcast query =
     (let scen = detect_scenario_type query
      in case get_relevant_episodes qe w [podcast] query 3 of
           Inl e \<Rightarrow> (Inl e, w)
         | Inr episode_list \<Rightarrow>
             let conf = calculate_confidence episode_list query
             in (case load_persona qe w (persona (podcast_artifacts podcast)) of
                   Inl e \<Rightarrow> (Inl e, w)
                 | Inr persona_values \<Rightarrow>
                     let use_creative_mode = (conf < 0.7);
                         request =
                           (if use_creative_mode
                            then (CreativePrompt persona_values query scen, 0.9, 700, ''creative'')
                            else (DatabasePrompt persona_values query
                                    (map context_entry (take 3 episode_list)) scen,
                                  0.8, 800, ''database''))
                     in (case request of
                           (prompt_sent, temperature, max_tokens, source_type) \<Rightarrow>
                             (case llm qe (requests w) prompt_sent temperature max_tokens of
                                Inr content \<Rightarrow>
                                  (Inr \<lparr> answer = unescape_newlines (clean_text_output qe content),
                                         confidence = conf,
                                         source = source_type,
                                         explanation = get_confidence_explanation episode_list conf,
                                         episodes_count = length episode_list,
                                         highest_score =
                                           (if episode_list \<noteq> [] then Max (set (map ep_score episode_list)) else 0),
                                         scenario_type = scen,
                                         metadata =
                                           Some \<lparr> episodes_used =
                                                    map (\<lambda>ep. (ep_title ep, ep_score ep)) episode_list,
                                                  processing_mode =
                                                    (if use_creative_mode then ''creative''
                                                     else ''content_based''),
                                                  timestamp = now qe (requests w) \<rparr>,
                                         error = None \<rparr>,
                                   tick w)
                              | Inl exception_text \<Rightarrow>
                                  (Inr \<lparr> answer =
                                           ''Oh, what a wonderful question! As your host here at ''
                                           @ (case pd_podcast_name persona_values of
                                                None \<Rightarrow> ''The Hospitality Expert'' | Some n \<Rightarrow> n)
                                           @ '', I'd love to dive deep into that topic with you. Pull up a chair by the fire - though I'm having a bit of technical trouble accessing my podcast treasure chest right now. How about we try that question again in just a moment?'',
                                         confidence = 0.0,
                                         source = ''error'',
                                         explanation = ''Technical error occurred'',
                                         episodes_count = length episode_list,
                                         highest_score = 0,
                                         scenario_type = scen,
                                         metadata = None,
                                         error = Some exception_text \<rparr>,
                                   tick w)))))"

subsection \<open>The debate of several personas\<close>

record debate_metadata =
  synthesis_skipped :: bool
  reason :: "string option"
  total_episodes_found :: "nat option"
  average_individual_confidence :: "real option"
  debate_processing_mode :: "string option"
  debate_timestamp :: string

record debate_result =
  synthesis :: string
  individual_responses :: "individual_response list"
  insights_count :: nat
  debate_scenario_type :: string
  episodes_referenced :: "nat option"
  debate_confidence :: real
  debate_source :: string
  debate_explanation :: string
  debate_metadata :: "debate_metadata option"

definition historical_terms :: "string list" where
  "historical_terms = [''2023'', ''2022'', ''2021'', ''before 2024'', ''pre-2024'']"

text \<open>The fixed answer to a query about the years before the data starts.\<close>

definition boundary_response :: debate_result where
  "boundary_response =
     \<lparr> synthesis = ''Oh, I'd love to spill tea from those earlier years, but my podcast treasure chest starts in May 2024! How about we explore what's been buzzing in hospitality since then?'',
       individual_responses = [],
       insights_count = 0,
       debate_scenario_type = ''edge_case'',
       episodes_referenced = None,
       debate_confidence = 1.0,
       debate_source = ''system_boundary'',
       debate_explanation = ''Query outside available data range'',
       debate_metadata = None \<rparr>"

text \<open>
  The loop that asks every persona. An exception of
  \<^verbatim>\<open>single_persona_answer_with_confidence\<close> becomes an error entry.
\<close>

fun individual_loop ::
  "qa_env \<Rightarrow> world \<Rightarrow> string list \<Rightarrow> string \<Rightarrow> individual_response list \<times> world" where
  "individual_loop qe w [] query = ([], w)"
| "individual_loop qe w (podcast # rest) query =
     (case single_persona_answer_with_confidence qe w podcast query of
        (res, w1) \<Rightarrow>
          (let entry =
             (case res of
                Inr podcast_result \<Rightarrow>
                  \<lparr> ir_podcast = podcast, ir_response = answer podcast_result,
                    ir_confidence = confidence podcast_result, ir_source = source podcast_result \<rparr>
              | Inl e \<Rightarrow>
                  \<lparr> ir_podcast = podcast,
                    ir_response = ''Having trouble accessing '' @ podcast @ '' insights right now.'',
                    ir_confidence = 0.0, ir_source = ''error'' \<rparr>)
           in case individual_loop qe w1 rest query of
                (entries, w2) \<Rightarrow> (entry # entries, w2)))"

definition factual_indicators :: "string list" where
  "factual_indicators =
     [''who is'', ''what is'', ''when is'', ''where is'', ''how many'',
      ''president'', ''capital'', ''population'', ''weather'', ''temperature'']"

definition generate_simple_creative_response ::
  "qa_env \<Rightarrow> world \<Rightarrow> string \<Rightarrow> string list \<Rightarrow> (py_error + string) \<times> world" where
  "generate_simple_creative_response qe w query podcasts =
     (case (case podcasts of
              [] \<Rightarrow> Inr empty_persona
            | first_podcast # others \<Rightarrow> load_persona qe w (persona (podcast_artifacts first_podcast))) of
        Inl e \<Rightarrow> (Inl e, w)
      | Inr persona_values \<Rightarrow>
          let podcast_name_used =
                (case pd_podcast_name persona_values of
                   None \<Rightarrow> ''The Curious Concierge'' | Some n \<Rightarrow> n);
              host_style =
                (case pd_host_style persona_values of
                   None \<Rightarrow> ''Warm, conversational'' | Some s \<Rightarrow> s);
              is_factual = any_in factual_indicators (lower query)
          in (case llm qe (requests w)
                     (SimpleCreativePrompt podcast_name_used host_style query is_factual) 0.8 400 of
                Inr content \<Rightarrow> (Inr (unescape_newlines (clean_text_output qe content)), tick w)
              | Inl exception_text \<Rightarrow>
                  (Inr ''That's an interesting question! While this hasn't been a topic we've explored in our recent podcast episodes, I appreciate your curiosity. If you have any hospitality-related questions, I'd be happy to help with those.'',
                   tick w)))"

text \<open>
  \<^verbatim>\<open>apply_final_cleaning\<close> on one string value: the literal replacements, then
  \<^verbatim>\<open>clean_text_output\<close>. It is applied to every string of the response dictionary, also
  inside the list of individual responses and inside the metadata.
\<close>

definition final_clean :: "qa_env \<Rightarrow> string \<Rightarrow> string" where
  "final_clean qe s =
     clean_text_output qe
       (str_replace (backslash_n @ backslash_n) newline
          (str_replace backslash_n newline
             (str_replace (backslash_n @ backslash_n) (newline @ newline)
                (str_replace (backslash_n @ backslash_n @ backslash_n) (newline @ newline) s))))"

definition apply_final_cleaning :: "qa_env \<Rightarrow> debate_result \<Rightarrow> debate_result" where
  "apply_final_cleaning qe d =
     \<lparr> synthesis = final_clean qe (synthesis d),
       individual_responses =
         map (\<lambda>r. \<lparr> ir_podcast = final_clean qe (ir_podcast r),
                     ir_response = final_clean qe (ir_response r),
                     ir_confidence = ir_confidence r,
                     ir_source = final_clean qe (ir_source r) \<rparr>) (individual_responses d),
       insights_count = insights_count d,
       debate_scenario_type = final_clean qe (debate_scenario_type d),
       episodes_referenced = episodes_referenced d,
       debate_confidence = debate_confidence d,
       debate_source = final_clean qe (debate_source d),
       debate_explanation = final_clean qe (debate_explanation d),
       debate_metadata =
         map_option
           (\<lambda>m. m\<lparr> reason := map_option (final_clean qe) (reason m),
                    debate_processing_mode := map_option (final_clean qe) (debate_processing_mode m),
                    debate_timestamp := final_clean qe (debate_timestamp m) \<rparr>)
           (debate_metadata d) \<rparr>"

definition multi_persona_debate_with_confidence ::
  "qa_env \<Rightarrow> world \<Rightarrow> string list \<Rightarrow> string \<Rightarrow> (py_error + debate_result) \<times> world" where
  "multi_persona_debate_with_confidence qe w podcasts query =
     (let scen = detect_scenario_type query
      in if any_in historical_terms (lower query) then (Inr boundary_response, w)
         else
           (case get_relevant_episodes qe w podcasts query 10 of
              Inl e \<Rightarrow> (Inl e, w)
            | Inr all_episodes \<Rightarrow>
                let overall_confidence = calculate_confidence all_episodes query
                in (case individual_loop qe w podcasts query of
                      (responses, w1) \<Rightarrow>
                        if should_skip_synthesis responses then
                          (case generate_simple_creative_response qe w1 query podcasts of
                             (Inl e, w2) \<Rightarrow> (Inl e, w2)
                           | (Inr simple_response, w2) \<Rightarrow>
                               (Inr \<lparr> synthesis = simple_response,
                                      individual_responses = responses,
                                      insights_count =
                                        length (filter (\<lambda>r. 0 < ir_confidence r) responses),
                                      debate_scenario_type = scen,
                                      episodes_referenced = Some (length all_episodes),
                                      debate_confidence = 0.0,
                                      debate_source = ''simple_creative'',
                                      debate_explanation =
                                        ''Topic not covered in podcast episodes - providing general response'',
                                      debate_metadata =
                                        Some \<lparr> synthesis_skipped = True,
                                               reason = Some ''All responses were creative mode - preventing fabrication of non-existent discussions'',
                                               total_episodes_found = None,
                                               average_individual_confidence = None,
                                               debate_processing_mode = None,
                                               debate_timestamp = now qe (requests w2) \<rparr> \<rparr>,
                                w2))
                        else
                          let synthesis_context =
                                map (\<lambda>r. (ir_podcast r, ir_response r))
                                  (filter (\<lambda>r. \<not> sublist ''trouble accessing'' (ir_response r)) responses);
                              episode_context =
                                map (\<lambda>ep. (ep_podcast ep, ep_title ep, take 500 (ep_text ep)))
                                  (take 5 all_episodes);
                              generated =
                                (case llm qe (requests w1)
                                        (SynthesisPrompt query synthesis_context episode_context scen)
                                        0.8 800 of
                                   Inr content \<Rightarrow> clean_text_output qe content
                                 | Inl exception_text \<Rightarrow>
                                     ''What a fascinating question! I'm having a bit of trouble accessing all my podcast notes right now, but I can tell there are some rich perspectives across these shows.'');
                              w2 = tick w1
                          in (Inr (apply_final_cleaning qe
                                \<lparr> synthesis = generated,
                                  individual_responses = responses,
                                  insights_count =
                                    length (filter (\<lambda>r. 0 < ir_confidence r) responses),
                                  debate_scenario_type = scen,
                                  episodes_referenced = Some (length all_episodes),
                                  debate_confidence = overall_confidence,
                                  debate_source = ''database'',
                                  debate_explanation =
                                    get_confidence_explanation all_episodes overall_confidence,
                                  debate_metadata =
                                    Some \<lparr> synthesis_skipped = False,
                                           reason = None,
                                           total_episodes_found = Some (length all_episodes),
                                           average_individual_confidence =
                                             Some (if responses \<noteq> []
                                                   then sum_list (map ir_confidence responses)
                                                        / real (length responses)
                                                   else 0),
                                           debate_processing_mode = Some ''content_based'',
                                           debate_timestamp = now qe (requests w2) \<rparr> \<rparr>),
                              w2))))"


section \<open>Notions used to state the properties\<close>

text \<open>The record of an episode, the empty dictionary when there is none.\<close>

definition record_of :: "world \<Rightarrow> string \<Rightarrow> string \<Rightarrow> episode" where
  "record_of w podcast guid = dict_get (episodes (load_manifest w podcast)) guid []"

text \<open>
  No episode of the podcast that had a stage name as status has a status before it
  afterwards.
\<close>

definition not_regressed :: "world \<Rightarrow> world \<Rightarrow> string \<Rightarrow> bool" where
  "not_regressed w w' podcast =
     (\<forall>g st. persisted_status w podcast g = Some st \<and> st \<in> set order \<longrightarrow>
        (\<exists>st'. persisted_status w' podcast g = Some st' \<and> at_least st' st))"

text \<open>A small ledger used to evaluate the definitions on concrete records.\<close>

definition ledger_example :: world where
  "ledger_example =
     \<lparr> manifests =
         [manifest (podcast_artifacts ''Show'') \<mapsto>
            \<lparr> podcast_name = ''Show'',
              episodes =
                [(''e1'', [(''title'', JStr ''One''), (''status'', JStr ''cleaned'')]),
                 (''e2'', [(''title'', JStr ''Two''), (''status'', JStr ''archived'')]),
                 (''e3'', [])] \<rparr>],
       files = Map.empty, metas = Map.empty, requests = 0 \<rparr>"

text \<open>
  Collaborators for the examples: the audio server answers every request with status 200 and
  a body of exactly 1024 bytes, the transcription service completes at the first poll, and
  the text scrubbing leaves the text as it is.
\<close>

definition env_example :: env where
  "env_example =
     \<lparr> http_get = (\<lambda>n url range_start.
          Response \<lparr> status_code = 200, content_length = Length 1024,
                     body = replicate 1024 (CHR ''a''), broken = False \<rparr>),
       stt_upload = (\<lambda>n audio_bytes. Some ''https://cdn.example/upload/1''),
       stt_submit = (\<lambda>n upload_url. Some ''job-1''),
       stt_poll = (\<lambda>n tid. PollStatus ''completed'' ''hello world''),
       scrub = (\<lambda>s. s),
       encode_index = (\<lambda>texts. concat texts),
       render_pdf = (\<lambda>story. Some ''%PDF'') \<rparr>"

text \<open>A podcast with one episode as the feed ingestion registers it, nothing on disk.\<close>

definition registered_world :: world where
  "registered_world =
     \<lparr> manifests =
         [manifest (podcast_artifacts ''Show'') \<mapsto>
            \<lparr> podcast_name = ''Show'',
              episodes =
                [(''e1'', [(''title'', JStr ''One''), (''audio_url'', JStr ''https://x/a.mp3''),
                          (''publish_date'', JStr []), (''status'', JStr [])])] \<rparr>],
       files = Map.empty, metas = Map.empty, requests = 0 \<rparr>"

text \<open>
  A podcast whose first episode went through the whole pipeline and whose second episode
  was added later and is cleaned; both cleaned transcripts are on disk.
\<close>

definition published_world :: world where
  "published_world =
     \<lparr> manifests =
         [manifest (podcast_artifacts ''Show'') \<mapsto>
            \<lparr> podcast_name = ''Show'',
              episodes =
                [(''e1'', [(''title'', JStr ''One''), (''status'', JStr ''pdf''),
                          (''files'', JDict [(''clean'', ''Show/episodes/e1_clean.txt'')])]),
                 (''e2'', [(''title'', JStr ''Two''), (''status'', JStr ''cleaned''),
                          (''files'', JDict [(''clean'', ''Show/episodes/e2_clean.txt'')])])] \<rparr>],
       files = [''Show/episodes/e1_clean.txt'' \<mapsto> ''first text'',
                ''Show/episodes/e2_clean.txt'' \<mapsto> ''second text''],
       metas = Map.empty, requests = 0 \<rparr>"

text \<open>The first episode after its download: the audio file is on disk and recorded.\<close>

definition downloaded_world :: world where
  "downloaded_world =
     \<lparr> manifests =
         [manifest (podcast_artifacts ''Show'') \<mapsto>
            \<lparr> podcast_name = ''Show'',
              episodes =
                [(''e1'', [(''title'', JStr ''One''), (''audio_url'', JStr ''https://x/a.mp3''),
                          (''publish_date'', JStr []), (''status'', JStr ''downloaded''),
                          (''files'', JDict [(''audio'', audio (episode_paths ''Show'' ''e1'' ''One''))])]),
                 (''e2'', [(''title'', JStr ''Two''), (''audio_url'', JStr ''https://x/b.mp3''),
                          (''publish_date'', JStr []), (''status'', JStr [])])] \<rparr>],
       files = [audio (episode_paths ''Show'' ''e1'' ''One'') \<mapsto> replicate 2000 (CHR ''a'')],
       metas = Map.empty, requests = 1 \<rparr>"

text \<open>
  Collaborators and a world for the examples on the question-answering side. The index of the
  podcast holds two episodes. For the query \<^verbatim>\<open>hotel\<close> it reports a single hit with score
  0.6999; for any other query it reports the first episode at distance 0.2 and the second at
  distance 1.5, in increasing distance. The text generation gives a fixed text for each kind
  of prompt. A podcast named \<^verbatim>\<open>Other\<close> has no index.
\<close>

definition qa_example :: qa_env where
  "qa_example =
     \<lparr> faiss_search = (\<lambda>index query top_k.
          if query = ''hotel'' then [(0, 0.6999)] else [(0, 0.2), (1, 1.5)]),
       json_persona = (\<lambda>content. None),
       llm = (\<lambda>n prompt_sent temperature max_tokens.
          case prompt_sent of
            CreativePrompt p q s \<Rightarrow>
              Inr ''While this hasn't come up in our recent episodes, here are some thoughts.''
          | DatabasePrompt p q c s \<Rightarrow> Inr ''An answer.''
          | SimpleCreativePrompt n h q f \<Rightarrow> Inr ''This is not covered in the episodes.''
          | SynthesisPrompt q sc ec s \<Rightarrow> Inr ''A synthesis.''),
       clean_text_output = (\<lambda>s. s),
       now = (\<lambda>n. ''2024-06-01T00:00:00'') \<rparr>"

definition indexed_world :: world where
  "indexed_world =
     \<lparr> manifests = Map.empty,
       files = [faiss (podcast_artifacts ''Show'') \<mapsto> ''index-bytes''],
       metas = [faiss_meta (podcast_artifacts ''Show'') \<mapsto>
                  [\<lparr> meta_guid = ''e1'', meta_title = JStr ''One'' \<rparr>,
                   \<lparr> meta_guid = ''e2'', meta_title = JStr ''Two'' \<rparr>]],
       requests = 0 \<rparr>"

text \<open>
  Replies of single personas, as \<^verbatim>\<open>multi_persona_debate_with_confidence\<close> collects them.
  \<open>fallback_reply\<close> and \<open>research_fallback_reply\<close> are in fallback mode (their source is
  \<^verbatim>\<open>creative\<close>); the second opens with the acknowledgment that the creative prompt of
  the research scenario requires. \<open>content_reply\<close> and \<open>phrase_content_reply\<close> are in
  content mode (their source is \<^verbatim>\<open>database\<close>); the second uses the words
  \<^verbatim>\<open>from my hospitality experience\<close>.
\<close>

definition fallback_reply :: individual_response where
  "fallback_reply =
     \<lparr> ir_podcast = ''A'',
       ir_response = ''While this hasn't come up in our recent episodes, I can share some thoughts.'',
       ir_confidence = 0.1, ir_source = ''creative'' \<rparr>"

definition content_reply :: individual_response where
  "content_reply =
     \<lparr> ir_podcast = ''B'',
       ir_response = ''In our recent episode about hotel trends, we discussed pricing.'',
       ir_confidence = 0.8, ir_source = ''database'' \<rparr>"

definition research_opening :: string where
  "research_opening =
     ''While we haven't explored wine tourism specifically in recent episodes, I can share some thoughts from my broader hospitality perspective...''"

definition research_fallback_reply :: individual_response where
  "research_fallback_reply =
     \<lparr> ir_podcast = ''A'', ir_response = research_opening,
       ir_confidence = 0, ir_source = ''creative'' \<rparr>"

definition phrase_content_reply :: individual_response where
  "phrase_content_reply =
     \<lparr> ir_podcast = ''B'',
       ir_response = ''In our episode on hotel trends we discussed pricing, and from my hospitality experience guests value speed.'',
       ir_confidence = 0.8, ir_source = ''database'' \<rparr>"

text \<open>
  The collaborators of \<open>qa_example\<close> with a text generation that follows the creative
  prompt of the research scenario: the reply starts with the opening that prompt requires.
\<close>

definition qa_research :: qa_env where
  "qa_research =
     qa_example \<lparr> llm := (\<lambda>n prompt_sent temperature max_tokens.
          case prompt_sent of
            CreativePrompt p q s \<Rightarrow>
              if s = ''research'' then Inr research_opening
              else Inr ''While this hasn't come up in our recent episodes, here are some thoughts.''
          | DatabasePrompt p q c s \<Rightarrow> Inr ''An answer.''
          | SimpleCreativePrompt n h q f \<Rightarrow> Inr ''This is not covered in the episodes.''
          | SynthesisPrompt q sc ec s \<Rightarrow> Inr ''A synthesis.'') \<rparr>"

section \<open>The ledger: stage comparison\<close>

lemma list_index_order:
  "list_index order s = (case stage_rank s of None \<Rightarrow> Inl ValueError | Some i \<Rightarrow> Inr i)"
  by (simp add: order_def stage_rank_def)

lemma list_index_JStr_order:
  "list_index (map JStr order) v =
     (case v of JStr s \<Rightarrow> (case stage_rank s of None \<Rightarrow> Inl ValueError | Some i \<Rightarrow> Inr i)
      | JDict d \<Rightarrow> Inl ValueError)"
  by (cases v) (simp_all add: order_def stage_rank_def)

lemma stage_rank_empty: "stage_rank '''' = None"
  by (simp add: stage_rank_def)

lemma status_reaches_eq:
  "status_reaches epi stage =
     (case dict_get epi ''status'' (JStr '''') of
        JStr st \<Rightarrow>
          (case stage_rank st of None \<Rightarrow> Inl ValueError
           | Some i \<Rightarrow> (case stage_rank stage of None \<Rightarrow> Inl ValueError | Some j \<Rightarrow> Inr (j \<le> i)))
      | JDict d \<Rightarrow> Inl ValueError)"
  by (simp add: status_reaches_def list_index_order list_index_JStr_order
      split: jval.splits option.splits)

lemma episode_done_at_least_eq:
  "episode_done_at_least w podcast guid stage =
     Inr (case persisted_status w podcast guid of None \<Rightarrow> False | Some st \<Rightarrow> at_least st stage)"
  by (auto simp: episode_done_at_least_def persisted_status_def status_reaches_eq dict_get_def
      at_least_def stage_rank_empty Let_def split: option.splits jval.splits)

text \<open>
  C1. \<^verbatim>\<open>episode_done_at_least\<close> never raises, and it answers True exactly when the
  episode has a persisted status that is a stage name at or after the asked stage in the
  order downloaded, transcribed, cleaned, embedded, pdf. A missing record, a record without
  status, and a status (or an asked stage) outside the list all give False.
\<close>

theorem episode_done_at_least_correct:
  "(\<exists>b. episode_done_at_least w podcast guid stage = Inr b) \<and>
   (episode_done_at_least w podcast guid stage = Inr True \<longleftrightarrow>
      (\<exists>st i j. persisted_status w podcast guid = Some st \<and>
                stage_rank st = Some i \<and> stage_rank stage = Some j \<and> j \<le> i)) \<and>
   (persisted_status w podcast guid = None \<longrightarrow>
      episode_done_at_least w podcast guid stage = Inr False) \<and>
   (\<forall>st. persisted_status w podcast guid = Some st \<and> st \<notin> set order \<longrightarrow>
      episode_done_at_least w podcast guid stage = Inr False)"
proof -
  have not_listed: "stage_rank st = None" if "st \<notin> set order" for st
    using that by (simp add: order_def stage_rank_def)
  show ?thesis
    by (auto simp: episode_done_at_least_eq at_least_def not_listed split: option.splits)
qed

lemma persisted_status_example:
  "persisted_status ledger_example ''Show'' ''e1'' = Some ''cleaned''"
  "persisted_status ledger_example ''Show'' ''e2'' = Some ''archived''"
  "persisted_status ledger_example ''Show'' ''e3'' = None"
  "persisted_status ledger_example ''Show'' ''e4'' = None"
  by (simp_all add: persisted_status_def ledger_example_def load_manifest_def)

theorem episode_done_at_least_correct_witness:
  "episode_done_at_least ledger_example ''Show'' ''e1'' ''transcribed'' = Inr True \<and>
   episode_done_at_least ledger_example ''Show'' ''e1'' ''embedded'' = Inr False \<and>
   persisted_status ledger_example ''Show'' ''e4'' = None \<and>
   episode_done_at_least ledger_example ''Show'' ''e4'' ''downloaded'' = Inr False \<and>
   persisted_status ledger_example ''Show'' ''e2'' = Some ''archived'' \<and>
   ''archived'' \<notin> set order \<and>
   episode_done_at_least ledger_example ''Show'' ''e2'' ''downloaded'' = Inr False"
proof -
  have unlisted: "''archived'' \<notin> set order"
    by (simp add: order_def)
  have ranks: "stage_rank ''cleaned'' = Some 2" "stage_rank ''transcribed'' = Some 1"
    "stage_rank ''embedded'' = Some 3"
    by (simp_all add: stage_rank_def)
  show ?thesis
    using episode_done_at_least_correct [of ledger_example "''Show''" "''e1''" "''transcribed''"]
      episode_done_at_least_correct [of ledger_example "''Show''" "''e1''" "''embedded''"]
      episode_done_at_least_correct [of ledger_example "''Show''" "''e4''" "''downloaded''"]
      episode_done_at_least_correct [of ledger_example "''Show''" "''e2''" "''downloaded''"]
      unlisted
    by (auto simp: persisted_status_example ranks)
qed

section \<open>Frame lemmas of the ledger and the file system\<close>

lemma map_of_dict_update:
  "map_of (dict_update d kwargs) = map_of d ++ map_of (rev kwargs)"
  unfolding dict_update_def
proof (induction kwargs arbitrary: d)
  case Nil
  show ?case by simp
next
  case (Cons kv kwargs)
  obtain k v where kv: "kv = (k, v)" by (cases kv)
  show ?case
    by (simp add: kv Cons.IH update_conv' map_add_upd_left fun_eq_iff map_add_def split: option.splits)
qed

lemma load_manifest_update:
  "load_manifest (update_episode_state w podcast guid kwargs) podcast =
     (load_manifest w podcast)\<lparr> episodes :=
        AList.update guid (dict_update (record_of w podcast guid) kwargs) (episodes (load_manifest w podcast)) \<rparr>"
  by (simp add: update_episode_state_def save_manifest_def load_manifest_def record_of_def Let_def)

lemma update_episode_state_fields [simp]:
  "files (update_episode_state w podcast guid kwargs) = files w"
  "metas (update_episode_state w podcast guid kwargs) = metas w"
  "requests (update_episode_state w podcast guid kwargs) = requests w"
  by (simp_all add: update_episode_state_def save_manifest_def Let_def)

lemma fs_ops_manifests [simp]:
  "manifests (write_file w p c) = manifests w"
  "manifests (unlink w p) = manifests w"
  "manifests (tick w) = manifests w"
  "requests (write_file w p c) = requests w"
  "requests (unlink w p) = requests w"
  "requests (tick w) = Suc (requests w)"
  "files (tick w) = files w"
  "files (write_file w p c) = (files w)(p \<mapsto> c)"
  "files (unlink w p) = (files w)(p := None)"
  by (simp_all add: write_file_def unlink_def tick_def)

lemma load_manifest_cong: "manifests w' = manifests w \<Longrightarrow> load_manifest w' podcast = load_manifest w podcast"
  by (simp add: load_manifest_def)

lemma persisted_status_cong:
  "manifests w' = manifests w \<Longrightarrow> persisted_status w' podcast g = persisted_status w podcast g"
  by (simp add: persisted_status_def load_manifest_def)

lemma episode_done_cong:
  "manifests w' = manifests w \<Longrightarrow>
   episode_done_at_least w' podcast g s = episode_done_at_least w podcast g s"
  by (simp add: episode_done_at_least_def load_manifest_def)

lemma record_of_update_same:
  "record_of (update_episode_state w podcast guid kwargs) podcast guid =
     dict_update (record_of w podcast guid) kwargs"
  by (simp add: record_of_def load_manifest_update dict_get_def update_conv')

lemma episodes_update_other:
  "g \<noteq> guid \<Longrightarrow>
   map_of (episodes (load_manifest (update_episode_state w podcast guid kwargs) podcast)) g =
   map_of (episodes (load_manifest w podcast)) g"
  by (simp add: load_manifest_update update_conv')

lemma persisted_status_update:
  "persisted_status (update_episode_state w podcast guid kwargs) podcast g =
     (if g = guid then
        (case map_of (rev kwargs) ''status'' of
           Some (JStr st) \<Rightarrow> Some st
         | Some (JDict d) \<Rightarrow> None
         | None \<Rightarrow> persisted_status w podcast guid)
      else persisted_status w podcast g)"
  by (auto simp: persisted_status_def load_manifest_update update_conv' map_of_dict_update
      record_of_def dict_get_def map_add_def split: option.splits jval.splits)


lemma paths_nonempty [simp]:
  "audio (episode_paths p g t) \<noteq> []"
  "audio_part (episode_paths p g t) \<noteq> []"
  "raw (episode_paths p g t) \<noteq> []"
  "clean (episode_paths p g t) \<noteq> []"
  "audio (episode_paths p g t) \<noteq> audio_part (episode_paths p g t)"
  "audio_part (episode_paths p g t) \<noteq> audio (episode_paths p g t)"
  by (simp_all add: episode_paths_def Let_def)

lemma clean_transcript_missing_raw:
  assumes "episode_done_at_least w podcast guid ''cleaned'' = Inr False"
    and "\<not> path_exists w (raw (episode_paths podcast guid title))"
  shows "clean_transcript env w podcast guid title =
     (Inr (clean (episode_paths podcast guid title)),
      update_episode_state (write_file w (clean (episode_paths podcast guid title)) (scrub env []))
        podcast guid
        [(''status'', JStr ''cleaned''),
         (''files'', JDict [(''clean'', clean (episode_paths podcast guid title))])])"
  using assms by (simp add: clean_transcript_def Let_def)

lemma clean_transcript_undecodable:
  assumes "episode_done_at_least w podcast guid ''cleaned'' = Inr False"
    and "files w (raw (episode_paths podcast guid title)) = Some bytes"
    and "\<not> utf8_valid bytes"
  shows "clean_transcript env w podcast guid title = (Inl UnicodeDecodeError, w)"
  using assms
  by (simp add: clean_transcript_def Let_def path_exists_def read_text_def read_bytes_def)

lemma clean_transcript_cases:
  assumes "episode_done_at_least w podcast guid ''cleaned'' = Inr False"
  shows "(\<exists>e. clean_transcript env w podcast guid title = (Inl e, w)) \<or>
         (\<exists>t. clean_transcript env w podcast guid title =
            (Inr (clean (episode_paths podcast guid title)),
             update_episode_state
               (write_file w (clean (episode_paths podcast guid title)) (scrub env t)) podcast guid
               [(''status'', JStr ''cleaned''),
                (''files'', JDict [(''clean'', clean (episode_paths podcast guid title))])]))"
proof (cases "if path_exists w (raw (episode_paths podcast guid title))
              then read_text w (raw (episode_paths podcast guid title)) else Inr []")
  case (Inl e)
  have "clean_transcript env w podcast guid title = (Inl e, w)"
    unfolding clean_transcript_def Let_def by (simp only: Inl assms) simp
  then show ?thesis by blast
next
  case (Inr t)
  have "clean_transcript env w podcast guid title =
          (Inr (clean (episode_paths podcast guid title)),
           update_episode_state
             (write_file w (clean (episode_paths podcast guid title)) (scrub env t)) podcast guid
             [(''status'', JStr ''cleaned''),
              (''files'', JDict [(''clean'', clean (episode_paths podcast guid title))])])"
    unfolding clean_transcript_def Let_def by (simp only: Inr assms) simp
  then show ?thesis by blast
qed

lemma download_invalid_url:
  assumes "audio_url = [] \<or> \<not> (prefix ''http://'' audio_url \<or> prefix ''https://'' audio_url)"
    and "\<not> (episode_done_at_least w podcast guid ''downloaded'' = Inr True \<and>
            path_exists w (audio (episode_paths podcast guid title)) \<and>
            MIN_FILE_SIZE < file_size w (audio (episode_paths podcast guid title)))"
  shows "download_episode env w podcast guid title audio_url = (Inl ValueError, w)"
  using assms
  by (auto simp: download_episode_def Let_def episode_done_at_least_eq split: option.splits)

lemma transcribe_missing_audio:
  assumes "episode_done_at_least w podcast guid ''transcribed'' = Inr False"
    and "\<not> (path_exists w (raw (episode_paths podcast guid title)) \<and>
            0 < file_size w (raw (episode_paths podcast guid title)))"
    and "\<not> truthy (map_of (record_of w podcast guid) ''transcript_id'')"
    and "\<not> path_exists w (audio (episode_paths podcast guid title))"
  shows "transcribe_episode env w podcast guid title = (Inl FileNotFoundError, w)"
  using assms
  by (auto simp: transcribe_episode_def Let_def record_of_def)


lemma persisted_status_fs [simp]:
  "persisted_status (write_file w p c) podcast g = persisted_status w podcast g"
  "persisted_status (unlink w p) podcast g = persisted_status w podcast g"
  "persisted_status (tick w) podcast g = persisted_status w podcast g"
  by (simp_all add: persisted_status_def load_manifest_def)

lemma poll_loop_status:
  "poll_loop env tid podcast guid rp pc w = (r, w') \<Longrightarrow>
     ((\<exists>e. r = Inl e) \<and> (\<forall>g. persisted_status w' podcast g = persisted_status w podcast g)) \<or>
     (r = Inr rp \<and>
      (\<forall>g. persisted_status w' podcast g =
            (if g = guid then Some ''transcribed'' else persisted_status w podcast g)))"
proof (induction env tid podcast guid rp pc w arbitrary: r w' rule: poll_loop.induct)
  case (1 env tid podcast guid rp pc w)
  show ?case
  proof (cases "stt_poll env (requests w) tid")
    case PollFailed
    show ?thesis
    proof (cases "10 < pc")
      case True
      with PollFailed "1.prems" show ?thesis
        by (subst (asm) poll_loop.simps) (auto simp: Let_def)
    next
      case False
      with PollFailed "1.prems"
      have rec: "poll_loop env tid podcast guid rp (Suc pc) (tick w) = (r, w')"
        by (subst (asm) poll_loop.simps) (simp add: Let_def)
      from "1.IH"(1) [OF refl PollFailed False rec] show ?thesis
        by (simp cong: if_cong)
    qed
  next
    case (PollStatus status transcript)
    show ?thesis
    proof (cases "status = ''completed'' \<or> status = ''error'' \<or> 360 < Suc pc")
      case True
      with PollStatus "1.prems" show ?thesis
        by (subst (asm) poll_loop.simps)
          (auto simp: Let_def persisted_status_update split: if_splits)
    next
      case False
      with PollStatus "1.prems"
      have rec: "poll_loop env tid podcast guid rp (Suc pc) (tick w) = (r, w')"
        by (subst (asm) poll_loop.simps) (simp add: Let_def)
      from False have c: "status \<noteq> ''completed''" and e: "status \<noteq> ''error''"
        and n: "\<not> 360 < Suc pc" by auto
      from "1.IH"(2) [OF refl PollStatus c e n rec] show ?thesis
        by (simp cong: if_cong)
    qed
  qed
qed


lemma in_order_rank: "st \<in> set order \<longleftrightarrow> stage_rank st \<noteq> None"
  by (simp add: order_def stage_rank_def)

lemma at_least_order:
  assumes "st \<in> set order" and "s \<in> set order" and "\<not> at_least st s"
  shows "at_least s st"
proof -
  from assms(1) obtain i where i: "stage_rank st = Some i" by (auto simp: in_order_rank)
  from assms(2) obtain j where j: "stage_rank s = Some j" by (auto simp: in_order_rank)
  from assms(3) show ?thesis by (simp add: at_least_def i j)
qed

lemma at_least_refl: "st \<in> set order \<Longrightarrow> at_least st st"
  by (auto simp: in_order_rank at_least_def)

lemma rank_le_4: "stage_rank st = Some i \<Longrightarrow> i \<le> 4"
  by (simp add: stage_rank_def split: if_splits)

lemma at_least_pdf: "st \<in> set order \<Longrightarrow> at_least ''pdf'' st"
proof -
  assume "st \<in> set order"
  then obtain i where i: "stage_rank st = Some i" by (auto simp: in_order_rank)
  have "stage_rank ''pdf'' = Some 4" by (simp add: stage_rank_def)
  with i rank_le_4 [OF i] show ?thesis by (simp add: at_least_def)
qed

lemma not_regressed_same:
  "(\<forall>g. persisted_status w' podcast g = persisted_status w podcast g) \<Longrightarrow>
   not_regressed w w' podcast"
  by (auto simp: not_regressed_def at_least_refl)

lemma not_regressed_advance:
  assumes "episode_done_at_least w podcast guid s = Inr False" and "s \<in> set order"
    and "\<forall>g. persisted_status w' podcast g =
           (if g = guid then Some s else persisted_status w podcast g)"
  shows "not_regressed w w' podcast"
  unfolding not_regressed_def
proof (intro allI impI)
  fix g st
  assume old: "persisted_status w podcast g = Some st \<and> st \<in> set order"
  show "\<exists>st'. persisted_status w' podcast g = Some st' \<and> at_least st' st"
  proof (cases "g = guid")
    case True
    from assms(1) old True have "\<not> at_least st s"
      by (simp add: episode_done_at_least_eq)
    with old assms(2) have "at_least s st"
      using at_least_order [of st s] by blast
    with assms(3) True show ?thesis by simp
  next
    case False
    with assms(3) old show ?thesis by (simp add: at_least_refl)
  qed
qed

lemma clean_status:
  assumes "clean_transcript env w podcast guid title = (r, w')"
  shows "(\<forall>g. persisted_status w' podcast g = persisted_status w podcast g) \<or>
         (episode_done_at_least w podcast guid ''cleaned'' = Inr False \<and>
          (\<forall>g. persisted_status w' podcast g =
                (if g = guid then Some ''cleaned'' else persisted_status w podcast g)))"
proof (cases "episode_done_at_least w podcast guid ''cleaned'' = Inr True")
  case True
  with assms show ?thesis
    by (simp add: clean_transcript_def Let_def)
next
  case False
  then have nd: "episode_done_at_least w podcast guid ''cleaned'' = Inr False"
    by (simp add: episode_done_at_least_eq)
  from clean_transcript_cases [OF nd, of env title] assms nd show ?thesis
    by (auto simp: persisted_status_update)
qed

lemma transcribe_status:
  assumes "transcribe_episode env w podcast guid title = (r, w')"
  shows "(\<forall>g. persisted_status w' podcast g = persisted_status w podcast g) \<or>
         (episode_done_at_least w podcast guid ''transcribed'' = Inr False \<and>
          r = Inr (raw (episode_paths podcast guid title)) \<and>
          (\<forall>g. persisted_status w' podcast g =
                (if g = guid then Some ''transcribed'' else persisted_status w podcast g)))"
proof (cases "episode_done_at_least w podcast guid ''transcribed'' = Inr True")
  case True
  with assms show ?thesis
    by (simp add: transcribe_episode_def Let_def)
next
  case False
  then have nd: "episode_done_at_least w podcast guid ''transcribed'' = Inr False"
    by (simp add: episode_done_at_least_eq)
  let ?paths = "episode_paths podcast guid title"
  show ?thesis
  proof (cases "path_exists w (raw ?paths) \<and> 0 < file_size w (raw ?paths)")
    case True
    with assms nd show ?thesis
      by (auto simp: transcribe_episode_def Let_def persisted_status_update)
  next
    case noraw: False
    let ?tid = "map_of (dict_get (episodes (load_manifest w podcast)) guid []) ''transcript_id''"
    show ?thesis
    proof (cases "truthy ?tid")
      case True
      then obtain t where t: "?tid = Some t"
        by (cases ?tid) (auto simp: truthy_def)
      with assms nd noraw True
      have "poll_loop env t podcast guid (raw ?paths) 0 w = (r, w')"
        by (simp add: transcribe_episode_def Let_def)
      from poll_loop_status [OF this] nd show ?thesis by auto
    next
      case nt: False
      show ?thesis
      proof (cases "path_exists w (audio ?paths)")
        case False
        with assms nd noraw nt show ?thesis
          by (auto simp: transcribe_episode_def Let_def)
      next
        case ex: True
        then obtain bytes where bytes: "read_bytes w (audio ?paths) = Inr bytes"
          by (auto simp: path_exists_def read_bytes_def)
        show ?thesis
        proof (cases "stt_upload env (requests w) bytes")
          case None
          with assms nd noraw nt ex bytes show ?thesis
            by (auto simp: transcribe_episode_def Let_def)
        next
          case (Some url)
          show ?thesis
          proof (cases "stt_submit env (Suc (requests w)) url")
            case None
            with assms nd noraw nt ex bytes Some show ?thesis
              by (auto simp: transcribe_episode_def Let_def)
          next
            case (Some job)
            with assms nd noraw nt ex bytes \<open>stt_upload env (requests w) bytes = Some url\<close>
            have "poll_loop env (JStr job) podcast guid (raw ?paths) 0
                    (update_episode_state (tick (tick w)) podcast guid [(''transcript_id'', JStr job)])
                  = (r, w')"
              by (simp add: transcribe_episode_def Let_def)
            from poll_loop_status [OF this] nd show ?thesis
              by (auto simp: persisted_status_update cong: if_cong split: if_splits)
          qed
        qed
      qed
    qed
  qed
qed



lemma download_attempt_frame:
  assumes "download_attempt env url part rf rg w = (res, rf', rg', w')"
  shows "manifests w' = manifests w \<and> requests w' = Suc (requests w)"
  using assms
  by (auto simp: download_attempt_def Let_def split: http_outcome.splits if_splits)

lemma download_loop_frame:
  "download_loop env url part n rf rg w = (r, w') \<Longrightarrow>
     manifests w' = manifests w \<and> requests w \<le> requests w' \<and> (0 < n \<longrightarrow> requests w < requests w')"
proof (induction n arbitrary: rf rg w)
  case 0
  then show ?case by simp
next
  case (Suc n)
  obtain res rf1 rg1 w1 where att: "download_attempt env url part rf rg w = (res, rf1, rg1, w1)"
    by (metis prod_cases4)
  note fr = download_attempt_frame [OF att]
  show ?case
  proof (cases res)
    case Completed
    with Suc.prems att fr show ?thesis by simp
  next
    case Restart
    with Suc.prems att have "download_loop env url part n rf1 rg1 w1 = (r, w')" by simp
    from Suc.IH [OF this] fr show ?thesis by simp
  next
    case Raised
    show ?thesis
    proof (cases "n = 0")
      case True
      with Raised Suc.prems att fr show ?thesis by simp
    next
      case False
      with Raised Suc.prems att
      have "\<exists>rf2 rg2. download_loop env url part n rf2 rg2 w1 = (r, w')"
        by (auto split: if_splits)
      then obtain rf2 rg2 where "download_loop env url part n rf2 rg2 w1 = (r, w')" by blast
      from Suc.IH [OF this] fr show ?thesis by simp
    qed
  qed
qed

lemma safe_file_rename_frame:
  "safe_file_rename w src dst = (r, w') \<Longrightarrow> manifests w' = manifests w \<and> requests w' = requests w"
  by (auto simp: safe_file_rename_def Let_def split: option.splits if_splits)

lemma cleanup_frame [simp]:
  "manifests (cleanup_failed_download w p a) = manifests w"
  "requests (cleanup_failed_download w p a) = requests w"
  by (simp_all add: cleanup_failed_download_def Let_def)

lemma persisted_status_manifests:
  "manifests w' = manifests w \<Longrightarrow> persisted_status w' podcast g = persisted_status w podcast g"
  by (simp add: persisted_status_def load_manifest_def)

lemma download_body_result:
  assumes "download_body env w podcast guid title url = (r, w')"
  shows "requests w < requests w' \<and>
    (case r of
       Inl e \<Rightarrow> manifests w' = manifests w
     | Inr p \<Rightarrow> p = audio (episode_paths podcast guid title) \<and>
         path_exists w' p \<and> MIN_FILE_SIZE \<le> file_size w' p \<and>
         (\<forall>g. persisted_status w' podcast g =
               (if g = guid then Some ''downloaded'' else persisted_status w podcast g)))"
proof -
  let ?paths = "episode_paths podcast guid title"
  let ?rf = "if path_exists w (audio_part ?paths) then file_size w (audio_part ?paths) else 0"
  let ?rg = "if path_exists w (audio_part ?paths) \<and> 0 < ?rf then Some ?rf else None"
  obtain r1 w1 where loop: "download_loop env url (audio_part ?paths) MAX_RETRIES ?rf ?rg w = (r1, w1)"
    by (cases "download_loop env url (audio_part ?paths) MAX_RETRIES ?rf ?rg w")
  from download_loop_frame [OF loop]
  have f1: "manifests w1 = manifests w" "requests w < requests w1"
    by (simp_all add: MAX_RETRIES_def)
  show ?thesis
  proof (cases r1)
    case (Inl e)
    with assms loop f1 show ?thesis
      by (auto simp: download_body_def Let_def)
  next
    case (Inr u)
    obtain r2 w2 where ren: "safe_file_rename w1 (audio_part ?paths) (audio ?paths) = (r2, w2)"
      by (cases "safe_file_rename w1 (audio_part ?paths) (audio ?paths)")
    from safe_file_rename_frame [OF ren] f1
    have f2: "manifests w2 = manifests w" "requests w < requests w2" by simp_all
    show ?thesis
    proof (cases r2)
      case (Inl e)
      with assms loop Inr ren f2 show ?thesis
        by (auto simp: download_body_def Let_def)
    next
      case (Inr u')
      with assms loop \<open>r1 = Inr u\<close> ren f2 show ?thesis
        by (auto simp: download_body_def Let_def persisted_status_update
            persisted_status_manifests [OF f2(1)] path_exists_def file_size_def
            split: if_splits)
    qed
  qed
qed

lemma download_status:
  assumes "download_episode env w podcast guid title url = (r, w')"
  shows "(\<forall>g. persisted_status w' podcast g = persisted_status w podcast g) \<or>
         (r = Inr (audio (episode_paths podcast guid title)) \<and>
          (\<forall>g. persisted_status w' podcast g =
                (if g = guid then Some ''downloaded'' else persisted_status w podcast g)))"
proof -
  let ?paths = "episode_paths podcast guid title"
  obtain d where d: "episode_done_at_least w podcast guid ''downloaded'' = Inr d"
    by (simp add: episode_done_at_least_eq)
  show ?thesis
  proof (cases "(d \<and> path_exists w (audio ?paths) \<and> MIN_FILE_SIZE < file_size w (audio ?paths))
                 \<or> url = [] \<or> \<not> (prefix ''http://'' url \<or> prefix ''https://'' url)")
    case True
    with assms d show ?thesis
      by (auto simp: download_episode_def Let_def split: if_splits)
  next
    case False
    obtain r1 w1 where body: "download_body env w podcast guid title url = (r1, w1)"
      by (cases "download_body env w podcast guid title url")
    note res = download_body_result [OF body]
    show ?thesis
    proof (cases r1)
      case (Inl e)
      with res have m: "manifests w1 = manifests w" by simp
      have "manifests (cleanup_failed_download w1 (audio_part ?paths) (audio ?paths)) = manifests w"
        by (simp add: m)
      note ps = persisted_status_manifests [OF this]
      from assms d False body Inl show ?thesis
        by (auto simp: download_episode_def Let_def ps)
    next
      case (Inr p)
      with assms d False body res show ?thesis
        by (auto simp: download_episode_def Let_def)
    qed
  qed
qed

lemma mark_all_status:
  "persisted_status (mark_all w podcast guids st) podcast g =
     (if g \<in> set guids then Some st else persisted_status w podcast g)"
  unfolding mark_all_def
proof (induction guids arbitrary: w)
  case Nil
  show ?case by simp
next
  case (Cons a guids)
  show ?case
    by (simp add: Cons.IH persisted_status_update)
qed

lemma mark_all_frame [simp]:
  "files (mark_all w podcast guids st) = files w"
  "requests (mark_all w podcast guids st) = requests w"
  unfolding mark_all_def
  by (induction guids arbitrary: w) simp_all

lemma build_embeddings_status:
  assumes "build_embeddings env w podcast = (r, w')"
  shows "(\<forall>g. persisted_status w' podcast g = persisted_status w podcast g) \<or>
         (\<forall>g. persisted_status w' podcast g =
               (if g \<in> fst ` set (episodes (load_manifest w podcast)) then Some ''embedded''
                else persisted_status w podcast g))"
proof -
  let ?mf = "load_manifest w podcast"
  let ?art = "podcast_artifacts podcast"
  show ?thesis
  proof (cases "all_done w podcast (map fst (episodes ?mf)) ''embedded''")
    case (Inl e)
    with assms show ?thesis by (auto simp: build_embeddings_def Let_def)
  next
    case (Inr b)
    show ?thesis
    proof (cases b)
      case True
      with Inr assms show ?thesis by (auto simp: build_embeddings_def Let_def)
    next
      case False
      show ?thesis
      proof (cases "collect_clean w (episodes ?mf)")
        case (Inl e)
        with Inr False assms show ?thesis by (auto simp: build_embeddings_def Let_def)
      next
        case cc: (Inr tm)
        obtain texts ms where tm: "tm = (texts, ms)" by (cases tm)
        show ?thesis
        proof (cases "texts = []")
          case True
          with Inr False cc tm assms show ?thesis by (auto simp: build_embeddings_def Let_def)
        next
          case nonempty: False
          let ?w2 = "(write_file w (faiss ?art) (encode_index env texts))
                       \<lparr> metas := (metas (write_file w (faiss ?art) (encode_index env texts)))
                                     (faiss_meta ?art \<mapsto> ms) \<rparr>"
          have m: "manifests ?w2 = manifests w" by simp
          from Inr False cc tm nonempty assms
          have w': "w' = mark_all ?w2 podcast (map fst (episodes ?mf)) ''embedded''"
            by (auto simp: build_embeddings_def Let_def)
          show ?thesis
            by (rule disjI2) (simp add: w' mark_all_status persisted_status_manifests [OF m])
        qed
      qed
    qed
  qed
qed

section \<open>The ledger: what an update changes\<close>

lemma map_of_rev_distinct:
  "distinct (map fst kwargs) \<Longrightarrow> (k, v) \<in> set kwargs \<Longrightarrow> map_of (rev kwargs) k = Some v"
  by (rule map_of_is_SomeI) (simp_all add: rev_map [symmetric])

lemma clean_transcript_files:
  assumes "episode_done_at_least w podcast guid ''cleaned'' = Inr False"
    and "fst (clean_transcript env w podcast guid title) = Inr p"
  shows "map_of (record_of (snd (clean_transcript env w podcast guid title)) podcast guid) ''files''
         = Some (JDict [(''clean'', clean (episode_paths podcast guid title))])"
  using clean_transcript_cases [OF assms(1), of env title] assms(2)
  by (auto simp: record_of_update_same map_of_dict_update)

text \<open>
  C10. \<^verbatim>\<open>update_episode_state(podcast, guid, **kwargs)\<close> leaves the record of every other
  guid of the manifest as it was; in the record of \<open>guid\<close> every field that is not a
  keyword argument keeps its value and every field that is one gets exactly the given value.
  The files on disk are not touched. The value of \<^verbatim>\<open>files\<close> is replaced as a whole and
  not merged: after a cleaning that is not skipped and returns, the \<^verbatim>\<open>files\<close> dictionary
  of the record holds the clean path only, so an audio path recorded by the download is gone.
\<close>

theorem update_episode_state_frame:
  "(\<forall>g. g \<noteq> guid \<longrightarrow>
      map_of (episodes (load_manifest (update_episode_state w podcast guid kwargs) podcast)) g =
      map_of (episodes (load_manifest w podcast)) g) \<and>
   (\<forall>k. k \<notin> fst ` set kwargs \<longrightarrow>
      map_of (record_of (update_episode_state w podcast guid kwargs) podcast guid) k =
      map_of (record_of w podcast guid) k) \<and>
   (distinct (map fst kwargs) \<longrightarrow>
      (\<forall>(k, v) \<in> set kwargs.
         map_of (record_of (update_episode_state w podcast guid kwargs) podcast guid) k = Some v)) \<and>
   files (update_episode_state w podcast guid kwargs) = files w \<and>
   (episode_done_at_least w podcast guid ''cleaned'' = Inr False \<longrightarrow>
      (\<forall>p. fst (clean_transcript env w podcast guid title) = Inr p \<longrightarrow>
         map_of (record_of (snd (clean_transcript env w podcast guid title)) podcast guid) ''files'' =
         Some (JDict [(''clean'', clean (episode_paths podcast guid title))])))"
proof (intro conjI allI impI)
  fix g assume "g \<noteq> guid"
  then show "map_of (episodes (load_manifest (update_episode_state w podcast guid kwargs) podcast)) g =
      map_of (episodes (load_manifest w podcast)) g"
    by (rule episodes_update_other)
next
  fix k assume "k \<notin> fst ` set kwargs"
  then have "map_of (rev kwargs) k = None"
    by (simp add: map_of_eq_None_iff)
  then show "map_of (record_of (update_episode_state w podcast guid kwargs) podcast guid) k =
      map_of (record_of w podcast guid) k"
    by (simp add: record_of_update_same map_of_dict_update map_add_def)
next
  assume d: "distinct (map fst kwargs)"
  show "\<forall>(k, v) \<in> set kwargs.
         map_of (record_of (update_episode_state w podcast guid kwargs) podcast guid) k = Some v"
    by (auto simp: record_of_update_same map_of_dict_update map_add_def map_of_rev_distinct [OF d])
next
  show "files (update_episode_state w podcast guid kwargs) = files w" by simp
next
  fix p
  assume "episode_done_at_least w podcast guid ''cleaned'' = Inr False"
    and "fst (clean_transcript env w podcast guid title) = Inr p"
  then show "map_of (record_of (snd (clean_transcript env w podcast guid title)) podcast guid) ''files'' =
      Some (JDict [(''clean'', clean (episode_paths podcast guid title))])"
    by (rule clean_transcript_files)
qed

lemma downloaded_world_status:
  "persisted_status downloaded_world ''Show'' ''e1'' = Some ''downloaded''"
  "persisted_status downloaded_world ''Show'' ''e2'' = Some []"
  by (simp_all add: persisted_status_def load_manifest_def downloaded_world_def)

lemma downloaded_world_record:
  "record_of downloaded_world ''Show'' ''e1'' =
     [(''title'', JStr ''One''), (''audio_url'', JStr ''https://x/a.mp3''),
      (''publish_date'', JStr []), (''status'', JStr ''downloaded''),
      (''files'', JDict [(''audio'', audio (episode_paths ''Show'' ''e1'' ''One''))])]"
  by (simp add: record_of_def load_manifest_def downloaded_world_def dict_get_def)

theorem update_episode_state_frame_witness:
  "''e2'' \<noteq> ''e1'' \<and>
   map_of (episodes (load_manifest
      (update_episode_state downloaded_world ''Show'' ''e1''
         [(''status'', JStr ''cleaned''), (''files'', JDict [(''clean'', ''c.txt'')])]) ''Show'')) ''e2'' =
   map_of (episodes (load_manifest downloaded_world ''Show'')) ''e2'' \<and>
   ''title'' \<notin> fst ` set [(''status'', JStr ''cleaned''), (''files'', JDict [(''clean'', ''c.txt'')])] \<and>
   map_of (record_of
      (update_episode_state downloaded_world ''Show'' ''e1''
         [(''status'', JStr ''cleaned''), (''files'', JDict [(''clean'', ''c.txt'')])]) ''Show'' ''e1'')
      ''title'' = Some (JStr ''One'') \<and>
   distinct (map fst [(''status'', JStr ''cleaned''), (''files'', JDict [(''clean'', ''c.txt'')])]) \<and>
   map_of (record_of downloaded_world ''Show'' ''e1'') ''files'' =
     Some (JDict [(''audio'', audio (episode_paths ''Show'' ''e1'' ''One''))]) \<and>
   map_of (record_of
      (update_episode_state downloaded_world ''Show'' ''e1''
         [(''status'', JStr ''cleaned''), (''files'', JDict [(''clean'', ''c.txt'')])]) ''Show'' ''e1'')
      ''files'' = Some (JDict [(''clean'', ''c.txt'')]) \<and>
   episode_done_at_least downloaded_world ''Show'' ''e1'' ''cleaned'' = Inr False \<and>
   fst (clean_transcript env_example downloaded_world ''Show'' ''e1'' ''One'') =
     Inr (clean (episode_paths ''Show'' ''e1'' ''One'')) \<and>
   map_of (record_of (snd (clean_transcript env_example downloaded_world ''Show'' ''e1'' ''One''))
      ''Show'' ''e1'') ''files'' =
     Some (JDict [(''clean'', clean (episode_paths ''Show'' ''e1'' ''One''))])"
proof -
  have nd: "episode_done_at_least downloaded_world ''Show'' ''e1'' ''cleaned'' = Inr False"
    by (simp add: episode_done_at_least_eq downloaded_world_status at_least_def stage_rank_def)
  have nr: "\<not> path_exists downloaded_world (raw (episode_paths ''Show'' ''e1'' ''One''))"
    by code_simp
  have ret: "fst (clean_transcript env_example downloaded_world ''Show'' ''e1'' ''One'') =
     Inr (clean (episode_paths ''Show'' ''e1'' ''One''))"
    by (simp add: clean_transcript_missing_raw [OF nd nr])
  show ?thesis
    using update_episode_state_frame [of "''e1''" downloaded_world "''Show''"
        "[(''status'', JStr ''cleaned''), (''files'', JDict [(''clean'', ''c.txt'')])]"
        env_example "''One''"] nd ret
    by (simp add: downloaded_world_record)
qed

section \<open>Validation failures of the stages\<close>

lemma registered_world_status:
  "persisted_status registered_world ''Show'' ''e1'' = Some []"
  by (simp add: persisted_status_def load_manifest_def registered_world_def)

lemma registered_world_not_done:
  "episode_done_at_least registered_world ''Show'' ''e1'' stage = Inr False"
  by (simp add: episode_done_at_least_eq registered_world_status at_least_def stage_rank_empty)

lemma registered_world_no_files: "files registered_world p = None"
  by (simp add: registered_world_def)

lemma registered_world_record:
  "record_of registered_world ''Show'' ''e1'' =
     [(''title'', JStr ''One''), (''audio_url'', JStr ''https://x/a.mp3''),
      (''publish_date'', JStr []), (''status'', JStr [])]"
  by (simp add: record_of_def load_manifest_def registered_world_def dict_get_def)

text \<open>
  C9, as the claim states it, fails for the clean stage: with no raw transcript on disk
  \<^verbatim>\<open>clean_transcript\<close> returns the clean path, writes the (empty) cleaned artifact and
  sets the status to cleaned.
\<close>

theorem clean_transcript_missing_raw_counterexample:
  "files registered_world (raw (episode_paths ''Show'' ''e1'' ''One'')) = None \<and>
   fst (clean_transcript env_example registered_world ''Show'' ''e1'' ''One'') =
     Inr (clean (episode_paths ''Show'' ''e1'' ''One'')) \<and>
   files (snd (clean_transcript env_example registered_world ''Show'' ''e1'' ''One''))
     (clean (episode_paths ''Show'' ''e1'' ''One'')) = Some [] \<and>
   persisted_status (snd (clean_transcript env_example registered_world ''Show'' ''e1'' ''One''))
     ''Show'' ''e1'' = Some ''cleaned''"
proof -
  have nr: "\<not> path_exists registered_world (raw (episode_paths ''Show'' ''e1'' ''One''))"
    by (simp add: path_exists_def registered_world_no_files)
  show ?thesis
    by (simp add: clean_transcript_missing_raw [OF registered_world_not_done nr]
        registered_world_no_files persisted_status_update env_example_def)
qed

text \<open>
  C9, amended. \<^verbatim>\<open>download_episode\<close> raises ValueError for a URL that is empty or does
  not start with \<^verbatim>\<open>http://\<close> or \<^verbatim>\<open>https://\<close>, unless the episode is skipped as
  already downloaded; \<^verbatim>\<open>transcribe_episode\<close> raises FileNotFoundError when the episode
  is not yet transcribed, has no non-empty raw transcript and no transcript id recorded, and
  the audio file is missing. In both cases nothing is requested, nothing is written and the
  ledger is unchanged: the world is the same. \<^verbatim>\<open>clean_transcript\<close> does not fail on a
  missing raw transcript: when the episode is not yet cleaned and the raw transcript file is
  missing, it cleans the empty text, writes that artifact, sets the status to cleaned and
  returns the clean path.
\<close>

theorem stage_validation:
  "((audio_url = [] \<or> \<not> (prefix ''http://'' audio_url \<or> prefix ''https://'' audio_url)) \<and>
    \<not> (episode_done_at_least w podcast guid ''downloaded'' = Inr True \<and>
       path_exists w (audio (episode_paths podcast guid title)) \<and>
       MIN_FILE_SIZE < file_size w (audio (episode_paths podcast guid title))) \<longrightarrow>
    download_episode env w podcast guid title audio_url = (Inl ValueError, w)) \<and>
   (episode_done_at_least w podcast guid ''transcribed'' = Inr False \<and>
    \<not> (path_exists w (raw (episode_paths podcast guid title)) \<and>
       0 < file_size w (raw (episode_paths podcast guid title))) \<and>
    \<not> truthy (map_of (record_of w podcast guid) ''transcript_id'') \<and>
    \<not> path_exists w (audio (episode_paths podcast guid title)) \<longrightarrow>
    transcribe_episode env w podcast guid title = (Inl FileNotFoundError, w)) \<and>
   (episode_done_at_least w podcast guid ''cleaned'' = Inr False \<and>
    \<not> path_exists w (raw (episode_paths podcast guid title)) \<longrightarrow>
    clean_transcript env w podcast guid title =
      (Inr (clean (episode_paths podcast guid title)),
       update_episode_state
         (write_file w (clean (episode_paths podcast guid title)) (scrub env []))
         podcast guid
         [(''status'', JStr ''cleaned''),
          (''files'', JDict [(''clean'', clean (episode_paths podcast guid title))])]))"
  using download_invalid_url [of audio_url w podcast guid title env]
    transcribe_missing_audio [of w podcast guid title env]
    clean_transcript_missing_raw [of w podcast guid title env]
  by blast

theorem stage_validation_witness:
  "\<not> (prefix ''http://'' ''ftp://x/a.mp3'' \<or> prefix ''https://'' ''ftp://x/a.mp3'') \<and>
   episode_done_at_least registered_world ''Show'' ''e1'' ''downloaded'' = Inr False \<and>
   download_episode env_example registered_world ''Show'' ''e1'' ''One'' ''ftp://x/a.mp3'' =
     (Inl ValueError, registered_world) \<and>
   episode_done_at_least registered_world ''Show'' ''e1'' ''transcribed'' = Inr False \<and>
   \<not> path_exists registered_world (raw (episode_paths ''Show'' ''e1'' ''One'')) \<and>
   \<not> truthy (map_of (record_of registered_world ''Show'' ''e1'') ''transcript_id'') \<and>
   \<not> path_exists registered_world (audio (episode_paths ''Show'' ''e1'' ''One'')) \<and>
   transcribe_episode env_example registered_world ''Show'' ''e1'' ''One'' =
     (Inl FileNotFoundError, registered_world) \<and>
   episode_done_at_least registered_world ''Show'' ''e1'' ''cleaned'' = Inr False \<and>
   clean_transcript env_example registered_world ''Show'' ''e1'' ''One'' =
     (Inr (clean (episode_paths ''Show'' ''e1'' ''One'')),
      update_episode_state
        (write_file registered_world (clean (episode_paths ''Show'' ''e1'' ''One'')) [])
        ''Show'' ''e1''
        [(''status'', JStr ''cleaned''),
         (''files'', JDict [(''clean'', clean (episode_paths ''Show'' ''e1'' ''One''))])])"
proof -
  have sc: "scrub env_example [] = []"
    by (simp add: env_example_def)
  show ?thesis
    using stage_validation [of "''ftp://x/a.mp3''" registered_world "''Show''" "''e1''" "''One''"
        env_example]
    by (simp add: registered_world_not_done registered_world_no_files path_exists_def
        registered_world_record truthy_def sc)
qed

section \<open>How the stages move the status\<close>

lemma metas_fs [simp]:
  "metas (write_file w p c) = metas w"
  "metas (unlink w p) = metas w"
  "metas (tick w) = metas w"
  by (simp_all add: write_file_def unlink_def tick_def)

lemma transcribe_not_regressed:
  "not_regressed w (snd (transcribe_episode env w podcast guid title)) podcast"
proof -
  obtain r w' where res: "transcribe_episode env w podcast guid title = (r, w')"
    by (cases "transcribe_episode env w podcast guid title")
  have ord: "''transcribed'' \<in> set order" by (simp add: order_def)
  from transcribe_status [OF res] show ?thesis
    using not_regressed_same [of w' podcast w]
      not_regressed_advance [of w podcast guid "''transcribed''" w', OF _ ord]
    by (auto simp: res)
qed

lemma clean_not_regressed:
  "not_regressed w (snd (clean_transcript env w podcast guid title)) podcast"
proof -
  obtain r w' where res: "clean_transcript env w podcast guid title = (r, w')"
    by (cases "clean_transcript env w podcast guid title")
  have ord: "''cleaned'' \<in> set order" by (simp add: order_def)
  from clean_status [OF res] show ?thesis
    using not_regressed_same [of w' podcast w]
      not_regressed_advance [of w podcast guid "''cleaned''" w', OF _ ord]
    by (auto simp: res)
qed

lemma mark_pdf_not_regressed:
  "not_regressed w (mark_all w podcast guids ''pdf'') podcast"
  by (auto simp: not_regressed_def mark_all_status at_least_pdf at_least_refl)

lemma update_status_effect:
  "persisted_status (update_episode_state w podcast guid [(''status'', JStr st)]) podcast g =
     (if g = guid then Some st else persisted_status w podcast g)"
  by (simp add: persisted_status_update)

lemma build_embeddings_effect:
  "(\<forall>g. persisted_status (snd (build_embeddings env w podcast)) podcast g =
          persisted_status w podcast g) \<or>
   (\<forall>g. persisted_status (snd (build_embeddings env w podcast)) podcast g =
          (if g \<in> fst ` set (episodes (load_manifest w podcast)) then Some ''embedded''
           else persisted_status w podcast g))"
proof -
  obtain r w' where res: "build_embeddings env w podcast = (r, w')"
    by (cases "build_embeddings env w podcast")
  from build_embeddings_status [OF res] show ?thesis
    by (simp only: res snd_conv)
qed

lemma download_effect:
  "(\<forall>g. persisted_status (snd (download_episode env w podcast guid title url)) podcast g =
          persisted_status w podcast g) \<or>
   (fst (download_episode env w podcast guid title url) =
      Inr (audio (episode_paths podcast guid title)) \<and>
    (\<forall>g. persisted_status (snd (download_episode env w podcast guid title url)) podcast g =
          (if g = guid then Some ''downloaded'' else persisted_status w podcast g)))"
proof -
  obtain r w' where res: "download_episode env w podcast guid title url = (r, w')"
    by (cases "download_episode env w podcast guid title url")
  from download_status [OF res] show ?thesis
    by (simp only: res snd_conv fst_conv)
qed

lemma published_world_status:
  "persisted_status published_world ''Show'' ''e1'' = Some ''pdf''"
  "persisted_status published_world ''Show'' ''e2'' = Some ''cleaned''"
  by (simp_all add: persisted_status_def load_manifest_def published_world_def)

lemma published_world_rebuild:
  "build_embeddings env_example published_world ''Show'' =
     (Inr (Some (faiss (podcast_artifacts ''Show''))),
      mark_all
        ((write_file published_world (faiss (podcast_artifacts ''Show''))
            (encode_index env_example [''first text'', ''second text'']))
         \<lparr> metas := (metas published_world)
              (faiss_meta (podcast_artifacts ''Show'') \<mapsto>
                 [\<lparr> meta_guid = ''e1'', meta_title = JStr ''One'' \<rparr>,
                  \<lparr> meta_guid = ''e2'', meta_title = JStr ''Two'' \<rparr>]) \<rparr>)
        ''Show'' [''e1'', ''e2''] ''embedded'')"
proof -
  have mf: "load_manifest published_world ''Show'' =
     \<lparr> podcast_name = ''Show'',
       episodes =
         [(''e1'', [(''title'', JStr ''One''), (''status'', JStr ''pdf''),
                   (''files'', JDict [(''clean'', ''Show/episodes/e1_clean.txt'')])]),
          (''e2'', [(''title'', JStr ''Two''), (''status'', JStr ''cleaned''),
                   (''files'', JDict [(''clean'', ''Show/episodes/e2_clean.txt'')])])] \<rparr>"
    by (simp add: load_manifest_def published_world_def)
  have fl: "files published_world ''Show/episodes/e1_clean.txt'' = Some ''first text''"
    "files published_world ''Show/episodes/e2_clean.txt'' = Some ''second text''"
    by (simp_all add: published_world_def)
  have ad: "all_done published_world ''Show'' [''e1'', ''e2''] ''embedded'' = Inr False"
    by (simp add: episode_done_at_least_eq published_world_status at_least_def stage_rank_def)
  have cc: "collect_clean published_world (episodes (load_manifest published_world ''Show'')) =
     Inr ([''first text'', ''second text''],
          [\<lparr> meta_guid = ''e1'', meta_title = JStr ''One'' \<rparr>,
           \<lparr> meta_guid = ''e2'', meta_title = JStr ''Two'' \<rparr>])"
    by code_simp
  have gs: "map fst (episodes (load_manifest published_world ''Show'')) = [''e1'', ''e2'']"
    by (simp add: mf)
  have ad': "all_done published_world ''Show''
      (map fst (episodes (load_manifest published_world ''Show''))) ''embedded'' = Inr False"
    by (simp only: gs ad)
  show ?thesis
    unfolding build_embeddings_def Let_def
    by (simp only: ad' cc) (simp add: gs)
qed

text \<open>
  C7, as the claim states it, fails for the rebuild of the embeddings: an episode that was
  at pdf is at embedded afterwards, which is before pdf in the order.
\<close>

theorem build_embeddings_regress_counterexample:
  "persisted_status published_world ''Show'' ''e1'' = Some ''pdf'' \<and>
   persisted_status (snd (build_embeddings env_example published_world ''Show'')) ''Show'' ''e1'' =
     Some ''embedded'' \<and>
   \<not> at_least ''embedded'' ''pdf'' \<and>
   \<not> not_regressed published_world (snd (build_embeddings env_example published_world ''Show''))
       ''Show''"
proof -
  have a: "persisted_status published_world ''Show'' ''e1'' = Some ''pdf''"
    by (rule published_world_status)
  have b: "persisted_status (snd (build_embeddings env_example published_world ''Show''))
      ''Show'' ''e1'' = Some ''embedded''"
    by (simp add: published_world_rebuild mark_all_status)
  have c: "\<not> at_least ''embedded'' ''pdf''"
    by (simp add: at_least_def stage_rank_def)
  have d: "''pdf'' \<in> set order" by (simp add: order_def)
  have "\<not> not_regressed published_world
            (snd (build_embeddings env_example published_world ''Show'')) ''Show''"
  proof
    assume "not_regressed published_world
              (snd (build_embeddings env_example published_world ''Show'')) ''Show''"
    with a d have "\<exists>st'. persisted_status (snd (build_embeddings env_example published_world ''Show''))
        ''Show'' ''e1'' = Some st' \<and> at_least st' ''pdf''"
      unfolding not_regressed_def by blast
    with b c show False by simp
  qed
  with a b c show ?thesis by simp
qed

text \<open>
  C7, amended. \<^verbatim>\<open>update_episode_state\<close> called with a status sets the status of that
  episode to the value given, whatever the status was before (there is no ordering check), and
  leaves the status of every other episode. Transcribing an episode, cleaning an episode and
  the publishing step that marks the episodes pdf never move the status of any episode of the
  podcast backwards in the order downloaded, transcribed, cleaned, embedded, pdf.
  \<^verbatim>\<open>build_embeddings\<close> either leaves every status as it is, or sets the status of every
  episode of the manifest to embedded, whatever it was before. \<^verbatim>\<open>download_episode\<close>
  either leaves every status as it is, or returns the audio path and sets the status of its
  episode to downloaded, whatever it was before, leaving the status of every other episode.
\<close>

theorem status_movement:
  "(\<forall>g. persisted_status (update_episode_state w podcast guid [(''status'', JStr st)]) podcast g =
          (if g = guid then Some st else persisted_status w podcast g)) \<and>
   not_regressed w (snd (transcribe_episode env w podcast guid title)) podcast \<and>
   not_regressed w (snd (clean_transcript env w podcast guid title)) podcast \<and>
   not_regressed w (mark_all w podcast guids ''pdf'') podcast \<and>
   ((\<forall>g. persisted_status (snd (build_embeddings env w podcast)) podcast g =
           persisted_status w podcast g) \<or>
    (\<forall>g. persisted_status (snd (build_embeddings env w podcast)) podcast g =
           (if g \<in> fst ` set (episodes (load_manifest w podcast)) then Some ''embedded''
            else persisted_status w podcast g))) \<and>
   ((\<forall>g. persisted_status (snd (download_episode env w podcast guid title url)) podcast g =
           persisted_status w podcast g) \<or>
    (fst (download_episode env w podcast guid title url) =
       Inr (audio (episode_paths podcast guid title)) \<and>
     (\<forall>g. persisted_status (snd (download_episode env w podcast guid title url)) podcast g =
           (if g = guid then Some ''downloaded'' else persisted_status w podcast g))))"
proof (intro conjI allI)
  fix g
  show "persisted_status (update_episode_state w podcast guid [(''status'', JStr st)]) podcast g =
          (if g = guid then Some st else persisted_status w podcast g)"
    by (rule update_status_effect)
next
  show "not_regressed w (snd (transcribe_episode env w podcast guid title)) podcast"
    by (rule transcribe_not_regressed)
next
  show "not_regressed w (snd (clean_transcript env w podcast guid title)) podcast"
    by (rule clean_not_regressed)
next
  show "not_regressed w (mark_all w podcast guids ''pdf'') podcast"
    by (rule mark_pdf_not_regressed)
next
  show "(\<forall>g. persisted_status (snd (build_embeddings env w podcast)) podcast g =
           persisted_status w podcast g) \<or>
    (\<forall>g. persisted_status (snd (build_embeddings env w podcast)) podcast g =
           (if g \<in> fst ` set (episodes (load_manifest w podcast)) then Some ''embedded''
            else persisted_status w podcast g))"
    by (rule build_embeddings_effect)
next
  show "(\<forall>g. persisted_status (snd (download_episode env w podcast guid title url)) podcast g =
           persisted_status w podcast g) \<or>
    (fst (download_episode env w podcast guid title url) =
       Inr (audio (episode_paths podcast guid title)) \<and>
     (\<forall>g. persisted_status (snd (download_episode env w podcast guid title url)) podcast g =
           (if g = guid then Some ''downloaded'' else persisted_status w podcast g)))"
    by (rule download_effect)
qed

theorem status_movement_witness:
  "persisted_status downloaded_world ''Show'' ''e1'' = Some ''downloaded'' \<and>
   ''downloaded'' \<in> set order \<and>
   (\<exists>st'. persisted_status (snd (transcribe_episode env_example downloaded_world ''Show'' ''e1'' ''One''))
            ''Show'' ''e1'' = Some st' \<and> at_least st' ''downloaded'') \<and>
   (\<exists>st'. persisted_status (snd (clean_transcript env_example downloaded_world ''Show'' ''e1'' ''One''))
            ''Show'' ''e1'' = Some st' \<and> at_least st' ''downloaded'') \<and>
   (\<exists>st'. persisted_status (mark_all downloaded_world ''Show'' [''e1'', ''e2''] ''pdf'')
            ''Show'' ''e1'' = Some st' \<and> at_least st' ''downloaded'')"
proof -
  have a: "persisted_status downloaded_world ''Show'' ''e1'' = Some ''downloaded''"
    by (rule downloaded_world_status)
  have b: "''downloaded'' \<in> set order" by (simp add: order_def)
  note sm = status_movement [of downloaded_world "''Show''" "''e1''" "''downloaded''" env_example
      "''One''" "[''e1'', ''e2'']" "''https://x/a.mp3''"]
  from sm have t: "not_regressed downloaded_world
       (snd (transcribe_episode env_example downloaded_world ''Show'' ''e1'' ''One'')) ''Show''"
    by (elim conjE)
  from sm have c: "not_regressed downloaded_world
       (snd (clean_transcript env_example downloaded_world ''Show'' ''e1'' ''One'')) ''Show''"
    by (elim conjE)
  from sm have m: "not_regressed downloaded_world
       (mark_all downloaded_world ''Show'' [''e1'', ''e2''] ''pdf'') ''Show''"
    by (elim conjE)
  from t c m a b show ?thesis
    unfolding not_regressed_def by blast
qed

section \<open>Calling a stage twice\<close>

lemma done_when_status:
  "persisted_status w podcast guid = Some st \<Longrightarrow> st \<in> set order \<Longrightarrow>
   episode_done_at_least w podcast guid st = Inr True"
  by (simp add: episode_done_at_least_eq at_least_refl)

lemma transcribe_success:
  assumes "transcribe_episode env w podcast guid title = (Inr p, w')"
  shows "p = raw (episode_paths podcast guid title) \<and>
         episode_done_at_least w' podcast guid ''transcribed'' = Inr True"
proof (cases "episode_done_at_least w podcast guid ''transcribed'' = Inr True")
  case True
  with assms show ?thesis
    by (auto simp: transcribe_episode_def Let_def)
next
  case False
  then have nd: "episode_done_at_least w podcast guid ''transcribed'' = Inr False"
    by (simp add: episode_done_at_least_eq)
  have ord: "''transcribed'' \<in> set order" by (simp add: order_def)
  let ?paths = "episode_paths podcast guid title"
  have poll: "episode_done_at_least w1 podcast guid ''transcribed'' = Inr True \<and> p = raw ?paths"
    if "poll_loop env t podcast guid (raw ?paths) 0 w0 = (Inr p, w1)" for t w0 w1
  proof -
    from poll_loop_status [OF that]
    have "p = raw ?paths" "persisted_status w1 podcast guid = Some ''transcribed''" by auto
    with ord show ?thesis by (simp add: done_when_status)
  qed
  show ?thesis
  proof (cases "path_exists w (raw ?paths) \<and> 0 < file_size w (raw ?paths)")
    case True
    with assms nd have "p = raw ?paths"
      and "persisted_status w' podcast guid = Some ''transcribed''"
      by (auto simp: transcribe_episode_def Let_def persisted_status_update)
    with ord show ?thesis by (simp add: done_when_status)
  next
    case noraw: False
    let ?tid = "map_of (dict_get (episodes (load_manifest w podcast)) guid []) ''transcript_id''"
    show ?thesis
    proof (cases "truthy ?tid")
      case True
      then obtain t where t: "?tid = Some t"
        by (cases ?tid) (auto simp: truthy_def)
      with assms nd noraw True
      have "poll_loop env t podcast guid (raw ?paths) 0 w = (Inr p, w')"
        by (simp add: transcribe_episode_def Let_def)
      from poll [OF this] show ?thesis by simp
    next
      case nt: False
      show ?thesis
      proof (cases "path_exists w (audio ?paths)")
        case False
        with assms nd noraw nt show ?thesis
          by (auto simp: transcribe_episode_def Let_def)
      next
        case ex: True
        then obtain bytes where bytes: "read_bytes w (audio ?paths) = Inr bytes"
          by (auto simp: path_exists_def read_bytes_def)
        show ?thesis
        proof (cases "stt_upload env (requests w) bytes")
          case None
          with assms nd noraw nt ex bytes show ?thesis
            by (auto simp: transcribe_episode_def Let_def)
        next
          case up: (Some url)
          show ?thesis
          proof (cases "stt_submit env (Suc (requests w)) url")
            case None
            with assms nd noraw nt ex bytes up show ?thesis
              by (auto simp: transcribe_episode_def Let_def)
          next
            case (Some job)
            with assms nd noraw nt ex bytes up
            have "poll_loop env (JStr job) podcast guid (raw ?paths) 0
                    (update_episode_state (tick (tick w)) podcast guid [(''transcript_id'', JStr job)])
                  = (Inr p, w')"
              by (simp add: transcribe_episode_def Let_def)
            from poll [OF this] show ?thesis by simp
          qed
        qed
      qed
    qed
  qed
qed

lemma transcribe_twice:
  assumes "transcribe_episode env w podcast guid title = (Inr p, w1)"
  shows "transcribe_episode env w1 podcast guid title = (Inr p, w1)"
  using transcribe_success [OF assms]
  by (simp add: transcribe_episode_def Let_def)

lemma clean_success:
  assumes "clean_transcript env w podcast guid title = (Inr p, w')"
  shows "p = clean (episode_paths podcast guid title) \<and>
         episode_done_at_least w' podcast guid ''cleaned'' = Inr True"
proof (cases "episode_done_at_least w podcast guid ''cleaned'' = Inr True")
  case True
  with assms show ?thesis
    by (auto simp: clean_transcript_def Let_def)
next
  case False
  then have nd: "episode_done_at_least w podcast guid ''cleaned'' = Inr False"
    by (simp add: episode_done_at_least_eq)
  have ord: "''cleaned'' \<in> set order" by (simp add: order_def)
  from clean_transcript_cases [OF nd, of env title] assms
  have "p = clean (episode_paths podcast guid title)"
    and "persisted_status w' podcast guid = Some ''cleaned''"
    by (auto simp: persisted_status_update)
  with ord show ?thesis by (simp add: done_when_status)
qed

lemma clean_twice:
  assumes "clean_transcript env w podcast guid title = (Inr p, w1)"
  shows "clean_transcript env w1 podcast guid title = (Inr p, w1)"
  using clean_success [OF assms]
  by (simp add: clean_transcript_def Let_def)

lemma download_success:
  assumes "download_episode env w podcast guid title url = (Inr p, w')"
  shows "p = audio (episode_paths podcast guid title) \<and>
         episode_done_at_least w' podcast guid ''downloaded'' = Inr True \<and>
         path_exists w' p \<and> MIN_FILE_SIZE \<le> file_size w' p \<and>
         (file_size w' p = MIN_FILE_SIZE \<longrightarrow>
            url \<noteq> [] \<and> (prefix ''http://'' url \<or> prefix ''https://'' url))"
proof -
  let ?paths = "episode_paths podcast guid title"
  have ord: "''downloaded'' \<in> set order" by (simp add: order_def)
  obtain d where d: "episode_done_at_least w podcast guid ''downloaded'' = Inr d"
    by (simp add: episode_done_at_least_eq)
  show ?thesis
  proof (cases "d \<and> path_exists w (audio ?paths) \<and> MIN_FILE_SIZE < file_size w (audio ?paths)")
    case True
    with assms d show ?thesis
      by (auto simp: download_episode_def Let_def)
  next
    case noskip: False
    show ?thesis
    proof (cases "url = [] \<or> \<not> (prefix ''http://'' url \<or> prefix ''https://'' url)")
      case True
      with assms d noskip show ?thesis
        by (auto simp: download_episode_def Let_def)
    next
      case valid: False
      obtain r1 w1 where body: "download_body env w podcast guid title url = (r1, w1)"
        by (cases "download_body env w podcast guid title url")
      from assms d noskip valid body have r1: "r1 = Inr p" and w1: "w1 = w'"
        by (auto simp: download_episode_def Let_def split: sum.splits)
      from download_body_result [OF body] r1 w1
      have "p = audio ?paths" "path_exists w' p" "MIN_FILE_SIZE \<le> file_size w' p"
        "persisted_status w' podcast guid = Some ''downloaded''"
        by auto
      with ord valid show ?thesis by (simp add: done_when_status)
    qed
  qed
qed

lemma download_twice:
  assumes "download_episode env w podcast guid title url = (Inr p, w1)"
    and "file_size w1 p \<noteq> MIN_FILE_SIZE"
  shows "download_episode env w1 podcast guid title url = (Inr p, w1)"
  using download_success [OF assms(1)] assms(2)
  by (auto simp: download_episode_def Let_def)

lemma download_again_at_minimum_size:
  assumes "download_episode env w podcast guid title url = (Inr p, w1)"
    and "file_size w1 p = MIN_FILE_SIZE"
  shows "requests w1 < requests (snd (download_episode env w1 podcast guid title url))"
proof -
  let ?paths = "episode_paths podcast guid title"
  note s = download_success [OF assms(1)]
  obtain r2 w2 where body: "download_body env w1 podcast guid title url = (r2, w2)"
    by (cases "download_body env w1 podcast guid title url")
  from download_body_result [OF body] have "requests w1 < requests w2" by simp
  with s assms(2) body show ?thesis
    by (cases r2) (auto simp: download_episode_def Let_def)
qed


lemma registered_first_attempt:
  "download_attempt env_example url (audio_part (episode_paths ''Show'' ''e1'' ''One'')) 0 None
     registered_world =
   (Completed, 0, None,
    write_file (tick registered_world) (audio_part (episode_paths ''Show'' ''e1'' ''One''))
      (replicate 1024 (CHR ''a'')))"
  by (simp add: download_attempt_def Let_def env_example_def path_exists_def file_size_def
      registered_world_no_files MIN_FILE_SIZE_def)

lemma registered_first_download:
  "download_episode env_example registered_world ''Show'' ''e1'' ''One'' ''https://x/a.mp3'' =
   (Inr (audio (episode_paths ''Show'' ''e1'' ''One'')),
    update_episode_state
      (write_file
         (unlink
            (write_file (tick registered_world) (audio_part (episode_paths ''Show'' ''e1'' ''One''))
               (replicate 1024 (CHR ''a'')))
            (audio_part (episode_paths ''Show'' ''e1'' ''One'')))
         (audio (episode_paths ''Show'' ''e1'' ''One'')) (replicate 1024 (CHR ''a'')))
      ''Show'' ''e1''
      [(''title'', JStr ''One''), (''audio_url'', JStr ''https://x/a.mp3''),
       (''status'', JStr ''downloaded''),
       (''files'', JDict [(''audio'', audio (episode_paths ''Show'' ''e1'' ''One''))])])"
proof -
  let ?part = "audio_part (episode_paths ''Show'' ''e1'' ''One'')"
  let ?audio = "audio (episode_paths ''Show'' ''e1'' ''One'')"
  let ?w1 = "write_file (tick registered_world) ?part (replicate 1024 (CHR ''a''))"
  have loop: "download_loop env_example ''https://x/a.mp3'' ?part MAX_RETRIES 0 None registered_world
      = (Inr (), ?w1)"
    by (simp add: MAX_RETRIES_def numeral_3_eq_3 registered_first_attempt)
  have ren: "safe_file_rename ?w1 ?part ?audio =
      (Inr (), write_file (unlink ?w1 ?part) ?audio (replicate 1024 (CHR ''a'')))"
    by (simp add: safe_file_rename_def Let_def path_exists_def registered_world_no_files)
  have body: "download_body env_example registered_world ''Show'' ''e1'' ''One'' ''https://x/a.mp3'' =
      (Inr ?audio,
       update_episode_state (write_file (unlink ?w1 ?part) ?audio (replicate 1024 (CHR ''a'')))
         ''Show'' ''e1''
         [(''title'', JStr ''One''), (''audio_url'', JStr ''https://x/a.mp3''),
          (''status'', JStr ''downloaded''), (''files'', JDict [(''audio'', ?audio)])])"
    unfolding download_body_def Let_def
    by (simp add: path_exists_def registered_world_no_files loop ren file_size_def MIN_FILE_SIZE_def)
  show ?thesis
    unfolding download_episode_def Let_def
    by (simp add: registered_world_not_done body)
qed

text \<open>
  C2 at an audio file of exactly \<^const>\<open>MIN_FILE_SIZE\<close> bytes. The first call downloads the
  1024 bytes, commits the file and records the status; the second call, on the world the
  first one left, does not return the existing file at once: it sends a request again.
\<close>

theorem download_twice_fetches_again:
  "fst (download_episode env_example registered_world ''Show'' ''e1'' ''One'' ''https://x/a.mp3'') =
     Inr (audio (episode_paths ''Show'' ''e1'' ''One'')) \<and>
   files (snd (download_episode env_example registered_world ''Show'' ''e1'' ''One'' ''https://x/a.mp3''))
     (audio (episode_paths ''Show'' ''e1'' ''One'')) = Some (replicate 1024 (CHR ''a'')) \<and>
   persisted_status
     (snd (download_episode env_example registered_world ''Show'' ''e1'' ''One'' ''https://x/a.mp3''))
     ''Show'' ''e1'' = Some ''downloaded'' \<and>
   requests (snd (download_episode env_example registered_world ''Show'' ''e1'' ''One'' ''https://x/a.mp3''))
     = 1 \<and>
   1 < requests (snd (download_episode env_example
          (snd (download_episode env_example registered_world ''Show'' ''e1'' ''One'' ''https://x/a.mp3''))
          ''Show'' ''e1'' ''One'' ''https://x/a.mp3''))"
proof -
  let ?first = "download_episode env_example registered_world ''Show'' ''e1'' ''One'' ''https://x/a.mp3''"
  let ?audio = "audio (episode_paths ''Show'' ''e1'' ''One'')"
  have r: "fst ?first = Inr ?audio"
    by (simp add: registered_first_download)
  have f: "files (snd ?first) ?audio = Some (replicate 1024 (CHR ''a''))"
    by (simp add: registered_first_download)
  have st: "persisted_status (snd ?first) ''Show'' ''e1'' = Some ''downloaded''"
    by (simp add: registered_first_download persisted_status_update)
  have n0: "requests registered_world = 0"
    by (simp add: registered_world_def)
  have n: "requests (snd ?first) = 1"
    by (simp add: registered_first_download n0)
  have sz: "file_size (snd ?first) ?audio = MIN_FILE_SIZE"
    by (simp add: file_size_def f MIN_FILE_SIZE_def)
  have "?first = (Inr ?audio, snd ?first)"
    using r by (cases ?first) simp
  from download_again_at_minimum_size [OF this sz] n
  have "1 < requests (snd (download_episode env_example (snd ?first)
          ''Show'' ''e1'' ''One'' ''https://x/a.mp3''))"
    by simp
  with r f st n show ?thesis by simp
qed

section \<open>The confidence score\<close>






section \<open>The anti-fabrication gate\<close>

lemma fold_count_response:
  "fold count_response rs (c, t) =
     (c + length (filter is_creative_response (filter (\<lambda>r. \<not> is_error_response r) rs)),
      t + length (filter (\<lambda>r. \<not> is_error_response r) rs))"
  by (induction rs arbitrary: c t) (simp_all add: count_response_def)

lemma should_skip_synthesis_ratio:
  "should_skip_synthesis rs \<longleftrightarrow>
     filter (\<lambda>r. \<not> is_error_response r) rs = [] \<or>
     0.8 \<le> real (length (filter is_creative_response (filter (\<lambda>r. \<not> is_error_response r) rs)))
            / real (length (filter (\<lambda>r. \<not> is_error_response r) rs))"
  by (cases "rs = []") (simp_all add: should_skip_synthesis_def fold_count_response)

lemma debate_skips_synthesis:
  assumes "\<not> any_in historical_terms (lower query)"
    and "get_relevant_episodes qe w podcasts query 10 = Inr eps"
    and "individual_loop qe w podcasts query = (rs, w1)"
    and "should_skip_synthesis rs"
    and "generate_simple_creative_response qe w1 query podcasts = (Inr s, w2)"
  shows "\<exists>d. multi_persona_debate_with_confidence qe w podcasts query = (Inr d, w2) \<and>
             synthesis d = s \<and> individual_responses d = rs \<and>
             debate_source d = ''simple_creative'' \<and> debate_confidence d = 0 \<and>
             map_option synthesis_skipped (debate_metadata d) = Some True"
  using assms
  by (simp add: multi_persona_debate_with_confidence_def Let_def)

lemma should_skip_synthesis_text:
  "should_skip_synthesis rs \<longleftrightarrow>
     filter (\<lambda>r. \<not> sublist ''trouble accessing'' (lower (ir_response r))) rs = [] \<or>
     0.8 \<le> real (length (filter (\<lambda>r. any_in creative_indicators (lower (ir_response r)))
                     (filter (\<lambda>r. \<not> sublist ''trouble accessing'' (lower (ir_response r))) rs)))
            / real (length (filter (\<lambda>r. \<not> sublist ''trouble accessing'' (lower (ir_response r))) rs))"
proof -
  have e: "is_error_response = (\<lambda>r. sublist ''trouble accessing'' (lower (ir_response r)))"
    by (rule ext) (simp add: is_error_response_def)
  have c: "is_creative_response = (\<lambda>r. any_in creative_indicators (lower (ir_response r)))"
    by (rule ext) (simp add: is_creative_response_def)
  show ?thesis
    unfolding should_skip_synthesis_ratio e c ..
qed

text \<open>
  C3. The claim counts the replies in fallback mode among the replies that are not error
  replies. \<^verbatim>\<open>should_skip_synthesis\<close> does not read the mode of a reply (its
  \<^verbatim>\<open>source\<close>): it looks for six phrases in the text (lemma
  \<open>should_skip_synthesis_text\<close>), and the opening that the creative prompt of the research
  scenario requires contains none of them. So the gate misses replies in fallback mode:
  \<^item> of five replies, four in fallback mode with that opening and one in content mode give
    False, and so do five replies in fallback mode, where the claim says True;
  \<^item> of five replies, one in fallback mode and four in content mode that use the words
    \<^verbatim>\<open>from my hospitality experience\<close> give True, where the claim says False;
  \<^item> a debate of two podcasts without an index on a research question, with a text generation
    that follows the prompt, collects two replies in fallback mode and goes on to the
    synthesis: the result has source \<^verbatim>\<open>database\<close> and the synthesis is not skipped.
\<close>

theorem should_skip_synthesis_misses_fallback_mode:
  "map ir_source [research_fallback_reply, research_fallback_reply, content_reply,
                  research_fallback_reply, research_fallback_reply] =
     [''creative'', ''creative'', ''database'', ''creative'', ''creative''] \<and>
   should_skip_synthesis [research_fallback_reply, research_fallback_reply, content_reply,
                          research_fallback_reply, research_fallback_reply] = False \<and>
   map ir_source [research_fallback_reply, research_fallback_reply,
                          research_fallback_reply, research_fallback_reply,
                          research_fallback_reply] =
     [''creative'', ''creative'', ''creative'', ''creative'', ''creative''] \<and>
   should_skip_synthesis [research_fallback_reply, research_fallback_reply,
                          research_fallback_reply, research_fallback_reply,
                          research_fallback_reply] = False \<and>
   map ir_source [phrase_content_reply, fallback_reply, phrase_content_reply,
                  phrase_content_reply, phrase_content_reply] =
     [''database'', ''creative'', ''database'', ''database'', ''database''] \<and>
   should_skip_synthesis [phrase_content_reply, fallback_reply, phrase_content_reply,
                          phrase_content_reply, phrase_content_reply] = True \<and>
   detect_scenario_type ''wine tourism trends'' = ''research'' \<and>
   map_sum (\<lambda>e. e)
     (\<lambda>d. (map ir_source (individual_responses d), map ir_response (individual_responses d),
           debate_source d, synthesis d, map_option synthesis_skipped (debate_metadata d)))
     (fst (multi_persona_debate_with_confidence qa_research indexed_world [''Other'', ''Another'']
             ''wine tourism trends'')) =
     Inr ([''creative'', ''creative''], [research_opening, research_opening],
          ''database'', ''A synthesis.'', Some False)"
proof -
  have a: "map ir_source [research_fallback_reply, research_fallback_reply, content_reply,
                  research_fallback_reply, research_fallback_reply] =
     [''creative'', ''creative'', ''database'', ''creative'', ''creative'']"
    by (simp add: research_fallback_reply_def content_reply_def)
  have cls:
    "\<not> is_creative_response research_fallback_reply" "\<not> is_error_response research_fallback_reply"
    "\<not> is_creative_response content_reply" "\<not> is_error_response content_reply"
    "is_creative_response phrase_content_reply" "\<not> is_error_response phrase_content_reply"
    "is_creative_response fallback_reply" "\<not> is_error_response fallback_reply"
    by code_simp+
  have b: "should_skip_synthesis [research_fallback_reply, research_fallback_reply, content_reply,
                          research_fallback_reply, research_fallback_reply] = False"
    by (simp add: should_skip_synthesis_ratio cls)
  have c: "map ir_source [research_fallback_reply, research_fallback_reply,
                          research_fallback_reply, research_fallback_reply,
                          research_fallback_reply] =
     [''creative'', ''creative'', ''creative'', ''creative'', ''creative'']"
    by (simp add: research_fallback_reply_def)
  have d: "should_skip_synthesis [research_fallback_reply, research_fallback_reply,
                          research_fallback_reply, research_fallback_reply,
                          research_fallback_reply] = False"
    by (simp add: should_skip_synthesis_ratio cls)
  have e: "map ir_source [phrase_content_reply, fallback_reply, phrase_content_reply,
                  phrase_content_reply, phrase_content_reply] =
     [''database'', ''creative'', ''database'', ''database'', ''database'']"
    by (simp add: phrase_content_reply_def fallback_reply_def)
  have f: "should_skip_synthesis [phrase_content_reply, fallback_reply, phrase_content_reply,
                          phrase_content_reply, phrase_content_reply] = True"
    by (simp add: should_skip_synthesis_ratio cls)
  have g: "detect_scenario_type ''wine tourism trends'' = ''research''"
    by code_simp
  have h: "map_sum (\<lambda>e. e)
     (\<lambda>d. (map ir_source (individual_responses d), map ir_response (individual_responses d),
           debate_source d, synthesis d, map_option synthesis_skipped (debate_metadata d)))
     (fst (multi_persona_debate_with_confidence qa_research indexed_world [''Other'', ''Another'']
             ''wine tourism trends'')) =
     Inr ([''creative'', ''creative''], [research_opening, research_opening],
          ''database'', ''A synthesis.'', Some False)"
    by code_simp
  from a b c d e f g h show ?thesis by (intro conjI)
qed

section \<open>The boundary guard\<close>

lemma sublist_lower: "sublist t s \<Longrightarrow> sublist (lower t) (lower s)"
  unfolding sublist_def lower_def by (metis map_append)

lemma lower_years: "lower ''2022'' = ''2022''" "lower ''2023'' = ''2023''" "lower ''2021'' = ''2021''"
  by code_simp+

lemma year_is_historical:
  assumes "sublist ''2022'' query"
  shows "any_in historical_terms (lower query)"
proof -
  from sublist_lower [OF assms] have "sublist ''2022'' (lower query)"
    by (simp only: lower_years)
  then show ?thesis
    by (simp add: any_in_def historical_terms_def)
qed

lemma normal_pipeline_not_boundary:
  assumes "\<not> any_in historical_terms (lower query)"
  shows "fst (multi_persona_debate_with_confidence qe w podcasts query) \<noteq> Inr boundary_response"
proof -
  have b: "episodes_referenced boundary_response = None"
    by (simp add: boundary_response_def)
  have "\<forall>d. fst (multi_persona_debate_with_confidence qe w podcasts query) = Inr d \<longrightarrow>
           episodes_referenced d \<noteq> None"
    using assms
    by (auto simp: multi_persona_debate_with_confidence_def Let_def apply_final_cleaning_def
        split: sum.splits prod.splits if_splits)
  with b show ?thesis by metis
qed

text \<open>
  C6, as the claim states it, fails for a time reference before the data horizon that is not
  one of the listed terms: a query about 2020 goes through the normal pipeline and gets the
  general fallback answer with confidence 0.
\<close>

theorem boundary_guard_counterexample:
  "\<not> any_in historical_terms (lower ''What happened in 2020?'') \<and>
   map_sum id debate_source
     (fst (multi_persona_debate_with_confidence qa_example indexed_world [''Show'']
             ''What happened in 2020?'')) = Inr ''database'' \<and>
   fst (multi_persona_debate_with_confidence qa_example indexed_world [''Show'']
          ''What happened in 2020?'') \<noteq> Inr boundary_response"
proof -
  have h: "\<not> any_in historical_terms (lower ''What happened in 2020?'')"
    by code_simp
  have s: "map_sum id debate_source
     (fst (multi_persona_debate_with_confidence qa_example indexed_world [''Show'']
             ''What happened in 2020?'')) = Inr ''database''"
    by code_simp
  from h s normal_pipeline_not_boundary [OF h] show ?thesis by simp
qed

text \<open>
  C6, amended. A query whose lower-cased text contains one of the terms 2023, 2022, 2021,
  before 2024, pre-2024 (in particular every query that contains 2022) gets the fixed
  boundary response with confidence 1.0 from \<^verbatim>\<open>multi_persona_debate_with_confidence\<close>,
  whatever the podcasts and the indexes are: nothing is retrieved, asked or synthesised and
  the world is unchanged. Every other query goes through the normal pipeline and never gets
  the boundary response.
\<close>

theorem boundary_guard:
  "(any_in historical_terms (lower query) \<longrightarrow>
      multi_persona_debate_with_confidence qe w podcasts query = (Inr boundary_response, w)) \<and>
   (sublist ''2022'' query \<longrightarrow>
      multi_persona_debate_with_confidence qe w podcasts query = (Inr boundary_response, w)) \<and>
   debate_confidence boundary_response = 1 \<and>
   debate_source boundary_response = ''system_boundary'' \<and>
   individual_responses boundary_response = [] \<and>
   (\<not> any_in historical_terms (lower query) \<longrightarrow>
      fst (multi_persona_debate_with_confidence qe w podcasts query) \<noteq> Inr boundary_response)"
  using year_is_historical [of query] normal_pipeline_not_boundary [of query qe w podcasts]
  by (auto simp: multi_persona_debate_with_confidence_def Let_def boundary_response_def)

theorem boundary_guard_witness:
  "any_in historical_terms (lower ''Trends Before 2024'') \<and>
   multi_persona_debate_with_confidence qa_example indexed_world [''Show''] ''Trends Before 2024'' =
     (Inr boundary_response, indexed_world) \<and>
   sublist ''2022'' ''hotel prices in 2022'' \<and>
   multi_persona_debate_with_confidence qa_example indexed_world [''Show''] ''hotel prices in 2022'' =
     (Inr boundary_response, indexed_world) \<and>
   \<not> any_in historical_terms (lower ''wine pairing'') \<and>
   fst (multi_persona_debate_with_confidence qa_example indexed_world [''Show''] ''wine pairing'')
     \<noteq> Inr boundary_response"
proof -
  have a: "any_in historical_terms (lower ''Trends Before 2024'')"
    by code_simp
  have b: "sublist ''2022'' ''hotel prices in 2022''"
    by code_simp
  have c: "\<not> any_in historical_terms (lower ''wine pairing'')"
    by code_simp
  show ?thesis
    using boundary_guard [of "''Trends Before 2024''" qa_example indexed_world "[''Show'']"]
      boundary_guard [of "''hotel prices in 2022''" qa_example indexed_world "[''Show'']"]
      boundary_guard [of "''wine pairing''" qa_example indexed_world "[''Show'']"]
      a b c
    by blast
qed

section \<open>Retrieval order\<close>

lemma take_Cons_hd: "take n xs = p # ps \<Longrightarrow> \<exists>rest. xs = p # rest"
  by (cases xs; cases n) auto

lemma first_passage_is_farthest:
  assumes "pool_hits qe w podcasts query limit = Inr pooled"
    and "get_relevant_episodes qe w podcasts query limit = Inr (p # ps)"
  shows "\<forall>q \<in> set pooled. ep_score q \<le> ep_score p"
proof
  fix q assume q: "q \<in> set pooled"
  let ?f = "\<lambda>x. - ep_score x"
  from assms have "take limit (sort_key ?f pooled) = p # ps"
    by (simp add: get_relevant_episodes_def)
  then have "\<exists>rest. sort_key ?f pooled = p # rest"
    by (rule take_Cons_hd)
  then obtain rest where s: "sort_key ?f pooled = p # rest" ..
  have "sorted (map ?f (sort_key ?f pooled))"
    by (rule sorted_sort_key)
  then have srt: "sorted (map ?f (p # rest))"
    by (simp only: s)
  have "set (sort_key ?f pooled) = set pooled"
    by (rule set_sort)
  then have st: "set (p # rest) = set pooled"
    by (simp only: s)
  from srt have le: "\<forall>x \<in> set rest. ?f p \<le> ?f x"
    by simp
  from q st have "q = p \<or> q \<in> set rest" by auto
  with le show "ep_score q \<le> ep_score p" by auto
qed

text \<open>
  C8 on an index that reports two hits in increasing distance, 0.2 and then 1.5:
  \<^verbatim>\<open>search\<close> returns them closest first, and \<^verbatim>\<open>get_relevant_episodes\<close>, which sorts
  the raw scores in falling order without normalising them, returns the hit at distance 1.5
  first.
\<close>

theorem get_relevant_episodes_farthest_first:
  "search qa_example indexed_world ''Show'' ''wine pairing'' 5 =
     Inr [\<lparr> hit_title = JStr ''One'', hit_guid = ''e1'', hit_score = 0.2 \<rparr>,
          \<lparr> hit_title = JStr ''Two'', hit_guid = ''e2'', hit_score = 1.5 \<rparr>] \<and>
   get_relevant_episodes qa_example indexed_world [''Show''] ''wine pairing'' 5 =
     Inr [\<lparr> ep_podcast = ''Show'', ep_title = JStr ''Two'', ep_guid = ''e2'',
            ep_text = [], ep_score = 1.5 \<rparr>,
          \<lparr> ep_podcast = ''Show'', ep_title = JStr ''One'', ep_guid = ''e1'',
            ep_text = [], ep_score = 0.2 \<rparr>]"
  by code_simp

section \<open>The mode of a single answer\<close>

lemma single_answer_mode:
  assumes "get_relevant_episodes qe w [podcast] query 3 = Inr eps"
    and "load_persona qe w (persona (podcast_artifacts podcast)) = Inr pv"
  shows "\<exists>r. single_persona_answer_with_confidence qe w podcast query = (Inr r, tick w) \<and>
     (calculate_confidence eps query < 0.7 \<longrightarrow>
        (case llm qe (requests w) (CreativePrompt pv query (detect_scenario_type query)) 0.9 700 of
           Inr content \<Rightarrow> source r = ''creative'' \<and> confidence r = calculate_confidence eps query
         | Inl exception_text \<Rightarrow> source r = ''error'' \<and> confidence r = 0)) \<and>
     (0.7 \<le> calculate_confidence eps query \<longrightarrow>
        (case llm qe (requests w)
                (DatabasePrompt pv query (map context_entry (take 3 eps)) (detect_scenario_type query))
                0.8 800 of
           Inr content \<Rightarrow> source r = ''database'' \<and> confidence r = calculate_confidence eps query
         | Inl exception_text \<Rightarrow> source r = ''error'' \<and> confidence r = 0))"
proof (cases "calculate_confidence eps query < 0.7")
  case True
  with assms show ?thesis
    by (cases "llm qe (requests w) (CreativePrompt pv query (detect_scenario_type query)) 0.9 700")
      (simp_all add: single_persona_answer_with_confidence_def Let_def)
next
  case False
  with assms show ?thesis
    by (cases "llm qe (requests w)
                (DatabasePrompt pv query (map context_entry (take 3 eps)) (detect_scenario_type query))
                0.8 800")
      (simp_all add: single_persona_answer_with_confidence_def Let_def)
qed


lemma confidence_shape:
  "eps \<noteq> [] \<Longrightarrow> Max (set (map ep_score eps)) = m \<Longrightarrow>
   calculate_confidence eps query =
     min (min m 1
          + (if 2 \<le> length (filter (\<lambda>ep. 0.5 < ep_score ep) eps) then 0.1 else 0)
          + (if any_in hospitality_keywords (lower query) then 0.05 else 0)) 1"
  unfolding calculate_confidence_def Let_def
  by (simp only: if_False split: if_splits) simp

lemma confidence_at_threshold:
  assumes "eps \<noteq> []" and "Max (set (map ep_score eps)) = 0.7"
  shows "0.7 \<le> calculate_confidence eps query"
  by (simp only: confidence_shape [OF assms]) simp

lemma confidence_below_threshold:
  assumes "eps \<noteq> []" and "Max (set (map ep_score eps)) = 0.6999"
    and "length (filter (\<lambda>ep. 0.5 < ep_score ep) eps) < 2"
    and "\<not> any_in hospitality_keywords (lower query)"
  shows "calculate_confidence eps query < 0.7"
  using assms(3,4) by (simp only: confidence_shape [OF assms(1,2)]) simp

lemma confidence_below_threshold_boosted:
  assumes "eps \<noteq> []" and "Max (set (map ep_score eps)) = 0.6999"
    and "2 \<le> length (filter (\<lambda>ep. 0.5 < ep_score ep) eps) \<or>
         any_in hospitality_keywords (lower query)"
  shows "0.7499 \<le> calculate_confidence eps query"
  using assms(3) by (simp only: confidence_shape [OF assms(1,2)]) auto

text \<open>
  C5, as the claim states it, fails for a best similarity of 0.6999 when the query has a
  hospitality keyword: the boost of 0.05 lifts the confidence to 0.7499 and the answer is
  generated in content mode.
\<close>

theorem mode_selection_counterexample:
  "get_relevant_episodes qa_example indexed_world [''Show''] ''hotel'' 3 =
     Inr [\<lparr> ep_podcast = ''Show'', ep_title = JStr ''One'', ep_guid = ''e1'',
            ep_text = [], ep_score = 0.6999 \<rparr>] \<and>
   map_sum id confidence
     (fst (single_persona_answer_with_confidence qa_example indexed_world ''Show'' ''hotel'')) =
     Inr 0.7499 \<and>
   map_sum id source
     (fst (single_persona_answer_with_confidence qa_example indexed_world ''Show'' ''hotel'')) =
     Inr ''database''"
  by code_simp


text \<open>
  C5, amended. \<^verbatim>\<open>single_persona_answer_with_confidence\<close> decides the mode by the
  computed confidence alone: below 0.7 it sends the creative prompt and a generated answer has
  source \<^verbatim>\<open>creative\<close>, at 0.7 or above it sends the database prompt built from the
  retrieved episodes and a generated answer has source \<^verbatim>\<open>database\<close>; the answer carries
  the computed confidence, and a failing generation gives source \<^verbatim>\<open>error\<close> with
  confidence 0. A best similarity of exactly 0.7 gives a confidence of at least 0.7, so content
  mode. A best similarity of 0.6999 gives fallback mode when fewer than two passages are above
  0.5 and the query has no hospitality keyword; when one of the two boosts applies the
  confidence is at least 0.7499, so content mode.
\<close>

theorem mode_selection:
  "(get_relevant_episodes qe w [podcast] query 3 = Inr eps \<and>
    load_persona qe w (persona (podcast_artifacts podcast)) = Inr pv \<longrightarrow>
    (\<exists>r. single_persona_answer_with_confidence qe w podcast query = (Inr r, tick w) \<and>
       (calculate_confidence eps query < 0.7 \<longrightarrow>
          (case llm qe (requests w) (CreativePrompt pv query (detect_scenario_type query)) 0.9 700 of
             Inr content \<Rightarrow> source r = ''creative'' \<and> confidence r = calculate_confidence eps query
           | Inl exception_text \<Rightarrow> source r = ''error'' \<and> confidence r = 0)) \<and>
       (0.7 \<le> calculate_confidence eps query \<longrightarrow>
          (case llm qe (requests w)
                  (DatabasePrompt pv query (map context_entry (take 3 eps)) (detect_scenario_type query))
                  0.8 800 of
             Inr content \<Rightarrow> source r = ''database'' \<and> confidence r = calculate_confidence eps query
           | Inl exception_text \<Rightarrow> source r = ''error'' \<and> confidence r = 0)))) \<and>
   (eps \<noteq> [] \<and> Max (set (map ep_score eps)) = 0.7 \<longrightarrow> 0.7 \<le> calculate_confidence eps query) \<and>
   (eps \<noteq> [] \<and> Max (set (map ep_score eps)) = 0.6999 \<and>
    length (filter (\<lambda>ep. 0.5 < ep_score ep) eps) < 2 \<and>
    \<not> any_in hospitality_keywords (lower query) \<longrightarrow> calculate_confidence eps query < 0.7) \<and>
   (eps \<noteq> [] \<and> Max (set (map ep_score eps)) = 0.6999 \<and>
    (2 \<le> length (filter (\<lambda>ep. 0.5 < ep_score ep) eps) \<or>
     any_in hospitality_keywords (lower query)) \<longrightarrow> 0.7499 \<le> calculate_confidence eps query)"
  using single_answer_mode [of qe w podcast query eps pv]
    confidence_at_threshold [of eps query]
    confidence_below_threshold [of eps query]
    confidence_below_threshold_boosted [of eps query]
  by blast

theorem mode_selection_witness:
  "get_relevant_episodes qa_example indexed_world [''Show''] ''hotel'' 3 =
     Inr [\<lparr> ep_podcast = ''Show'', ep_title = JStr ''One'', ep_guid = ''e1'',
            ep_text = [], ep_score = 0.6999 \<rparr>] \<and>
   load_persona qa_example indexed_world (persona (podcast_artifacts ''Show'')) = Inr empty_persona \<and>
   any_in hospitality_keywords (lower ''hotel'') \<and>
   0.7 \<le> calculate_confidence
            [\<lparr> ep_podcast = ''Show'', ep_title = JStr ''One'', ep_guid = ''e1'',
               ep_text = [], ep_score = 0.6999 \<rparr>] ''hotel'' \<and>
   (\<exists>r. single_persona_answer_with_confidence qa_example indexed_world ''Show'' ''hotel'' =
          (Inr r, tick indexed_world) \<and> source r = ''database'') \<and>
   get_relevant_episodes qa_example indexed_world [''Other''] ''wine pairing'' 3 = Inr [] \<and>
   calculate_confidence [] ''wine pairing'' < 0.7 \<and>
   (\<exists>r. single_persona_answer_with_confidence qa_example indexed_world ''Other'' ''wine pairing'' =
          (Inr r, tick indexed_world) \<and> source r = ''creative'') \<and>
   \<not> any_in hospitality_keywords (lower ''wine pairing'') \<and>
   0.7 \<le> calculate_confidence
            [\<lparr> ep_podcast = ''Show'', ep_title = JStr ''One'', ep_guid = ''e1'',
               ep_text = [], ep_score = 0.7 \<rparr>] ''wine pairing'' \<and>
   calculate_confidence
     [\<lparr> ep_podcast = ''Show'', ep_title = JStr ''One'', ep_guid = ''e1'',
        ep_text = [], ep_score = 0.6999 \<rparr>] ''wine pairing'' < 0.7"
proof -
  let ?p = "\<lparr> ep_podcast = ''Show'', ep_title = JStr ''One'', ep_guid = ''e1'',
              ep_text = [], ep_score = 0.6999 \<rparr>"
  let ?q = "\<lparr> ep_podcast = ''Show'', ep_title = JStr ''One'', ep_guid = ''e1'',
              ep_text = [], ep_score = 0.7 \<rparr>"
  have g1: "get_relevant_episodes qa_example indexed_world [''Show''] ''hotel'' 3 = Inr [?p]"
    by code_simp
  have g2: "get_relevant_episodes qa_example indexed_world [''Other''] ''wine pairing'' 3 = Inr []"
    by code_simp
  have p1: "load_persona qa_example indexed_world (persona (podcast_artifacts ''Show'')) =
      Inr empty_persona"
    by code_simp
  have p2: "load_persona qa_example indexed_world (persona (podcast_artifacts ''Other'')) =
      Inr empty_persona"
    by code_simp
  have kw: "any_in hospitality_keywords (lower ''hotel'')"
    by code_simp
  have nkw: "\<not> any_in hospitality_keywords (lower ''wine pairing'')"
    by code_simp
  have c0: "calculate_confidence [] ''wine pairing'' < 0.7"
    by (simp add: calculate_confidence_def)
  have mp: "Max (set (map ep_score [?p])) = 0.6999" "[?p] \<noteq> []"
    "length (filter (\<lambda>ep. 0.5 < ep_score ep) [?p]) < 2"
    by simp_all
  have mq: "Max (set (map ep_score [?q])) = 0.7" "[?q] \<noteq> []"
    by simp_all
  have l1: "llm qa_example n (DatabasePrompt pv q c s) t m = Inr ''An answer.''" for n pv q c s t m
    by (simp add: qa_example_def)
  have l2: "llm qa_example n (CreativePrompt pv q s) t m =
      Inr ''While this hasn't come up in our recent episodes, here are some thoughts.''"
    for n pv q s t m
    by (simp add: qa_example_def)
  note i1 = mode_selection [of qa_example indexed_world "''Show''" "''hotel''" "[?p]" empty_persona]
  note i2 = mode_selection [of qa_example indexed_world "''Other''" "''wine pairing''" "[]"
      empty_persona]
  note i3 = mode_selection [of qa_example indexed_world "''Show''" "''wine pairing''" "[?q]"
      empty_persona]
  note i4 = mode_selection [of qa_example indexed_world "''Show''" "''wine pairing''" "[?p]"
      empty_persona]
  from i1 mp kw have "0.7499 \<le> calculate_confidence [?p] ''hotel''" by blast
  then have b1: "0.7 \<le> calculate_confidence [?p] ''hotel''" by simp
  from i3 mq have b3: "0.7 \<le> calculate_confidence [?q] ''wine pairing''" by blast
  from i4 mp nkw have b4: "calculate_confidence [?p] ''wine pairing'' < 0.7" by blast
  from i1 g1 p1 b1 have r1: "\<exists>r. single_persona_answer_with_confidence qa_example indexed_world
      ''Show'' ''hotel'' = (Inr r, tick indexed_world) \<and> source r = ''database''"
    by (auto simp: l1)
  from i2 g2 p2 c0 have r2: "\<exists>r. single_persona_answer_with_confidence qa_example indexed_world
      ''Other'' ''wine pairing'' = (Inr r, tick indexed_world) \<and> source r = ''creative''"
    by (auto simp: l2)
  from g1 p1 kw b1 r1 g2 c0 r2 nkw b3 b4 show ?thesis by blast
qed

end
